theory Spec2Isabelle
  imports Main
begin

section \<open>Kapua: the course and student data model\<close>

text \<open>
  The repository is a Django application. Its source consists of model classes
  (\<^verbatim>\<open>courses/models.py\<close>, \<^verbatim>\<open>students/models.py\<close>) and one URL configuration
  (\<^verbatim>\<open>students/urls.py\<close>). Model classes become records, one field per declared
  column plus the automatic primary key \<^verbatim>\<open>id\<close>; a table is the list of its stored
  rows. A Python attribute that may hold \<^verbatim>\<open>None\<close> is an \<open>option\<close>.

  The methods the classes inherit are modelled as follows.
  \<^item> \<^verbatim>\<open>Model.save\<close>: with the primary key unset the row is inserted under a fresh
    key, which is written back to the object; with the key set, the row of that key is
    updated when it exists and inserted otherwise. The database rejects the statement
    with \<^verbatim>\<open>IntegrityError\<close> when a column declared without \<^verbatim>\<open>null=True\<close> holds
    \<^verbatim>\<open>None\<close> or when a column declared \<^verbatim>\<open>unique=True\<close> would repeat a stored
    value. \<^verbatim>\<open>save\<close> runs no validators, so \<^verbatim>\<open>max_length\<close> and \<^verbatim>\<open>blank\<close> play
    no role, and the existence of the row a foreign key names is not checked.
  \<^item> \<^verbatim>\<open>Model.delete\<close>: the row is removed together with every row that reaches it
    through a foreign key or through a declared \<^verbatim>\<open>GenericRelation\<close>.
\<close>

subsection \<open>Common definitions\<close>

text \<open>\<^verbatim>\<open>datetime.date\<close> and \<^verbatim>\<open>datetime.datetime\<close> values, as their ordinal.\<close>

type_synonym date = int

datatype error = IntegrityError | DoesNotExist | InvalidMove

text \<open>Python's truth value of an integer key: \<^verbatim>\<open>None\<close> and \<^verbatim>\<open>0\<close> are false.\<close>

definition truthy :: "nat option \<Rightarrow> bool" where
  "truthy v = (case v of None \<Rightarrow> False | Some n \<Rightarrow> n \<noteq> 0)"

primrec max_list :: "nat list \<Rightarrow> nat" where
  "max_list [] = 0"
| "max_list (x # xs) = max x (max_list xs)"

text \<open>The keys stored in a table, and the key an \<^verbatim>\<open>AutoField\<close> gives to a new row.\<close>

definition stored_pks :: "('r \<Rightarrow> nat option) \<Rightarrow> 'r list \<Rightarrow> nat list" where
  "stored_pks pk_of rows = List.map_filter pk_of rows"

definition fresh_pk :: "('r \<Rightarrow> nat option) \<Rightarrow> 'r list \<Rightarrow> nat" where
  "fresh_pk pk_of rows = Suc (max_list (stored_pks pk_of rows))"

text \<open>
  \<^verbatim>\<open>django.db.models.Model.save\<close>. The result is the object after the call and
  either the exception raised or the table after the call. \<open>constraints_ok self others\<close>
  are the declared column constraints of the model, checked against the other rows.
\<close>

definition Model_save ::
  "('r \<Rightarrow> nat option) \<Rightarrow> (nat \<Rightarrow> 'r \<Rightarrow> 'r) \<Rightarrow> ('r \<Rightarrow> 'r list \<Rightarrow> bool) \<Rightarrow>
   'r \<Rightarrow> 'r list \<Rightarrow> 'r \<times> (error + 'r list)" where
  "Model_save pk_of set_pk constraints_ok self rows =
     (case pk_of self of
        Some k \<Rightarrow>
          if k \<in> set (stored_pks pk_of rows) then
            (if constraints_ok self (filter (\<lambda>r. pk_of r \<noteq> Some k) rows)
             then (self, Inr (map (\<lambda>r. if pk_of r = Some k then self else r) rows))
             else (self, Inl IntegrityError))
          else
            (if constraints_ok self rows
             then (self, Inr (rows @ [self]))
             else (self, Inl IntegrityError))
      | None \<Rightarrow>
          if constraints_ok self rows
          then (let self' = set_pk (fresh_pk pk_of rows) self in (self', Inr (rows @ [self'])))
          else (self, Inl IntegrityError))"

subsection \<open>Schedules and enrolments (\<^verbatim>\<open>courses/models.py\<close>)\<close>

record Schedule =
  sched_id :: "nat option"
  sched_name :: string
  sched_course :: "nat option"
  sched_created :: "date option"
  sched_last_modified :: "date option"

record Enrolment =
  enr_id :: "nat option"
  enr_student :: "nat option"
  enr_schedule :: "nat option"
  enr_start :: "date option"
  enr_end :: "date option"

text \<open>
  The lookups \<^verbatim>\<open>start__lte=d\<close> and \<^verbatim>\<open>end__gte=d\<close>; a comparison with a missing
  value selects nothing.
\<close>

definition lte :: "date option \<Rightarrow> date \<Rightarrow> bool" where
  "lte v d = (case v of None \<Rightarrow> False | Some x \<Rightarrow> x \<le> d)"

definition gte :: "date option \<Rightarrow> date \<Rightarrow> bool" where
  "gte v d = (case v of None \<Rightarrow> False | Some x \<Rightarrow> d \<le> x)"

text \<open>
  \<^verbatim>\<open>Schedule.get_current_students\<close>. \<open>today\<close> is the value of
  \<^verbatim>\<open>datetime.date.today()\<close>, \<open>objects\<close> the rows of \<^verbatim>\<open>Enrolment.objects\<close>. The
  first filter compares the primary key of the enrolment with the primary key of the
  schedule.
\<close>

definition get_current_students :: "Schedule \<Rightarrow> date \<Rightarrow> Enrolment list \<Rightarrow> Enrolment list" where
  "get_current_students self today objects =
     filter (\<lambda>e. gte (enr_end e) today)
       (filter (\<lambda>e. lte (enr_start e) today)
          (filter (\<lambda>e. enr_id e = sched_id self) objects))"

subsection \<open>Subject groups and subjects (\<^verbatim>\<open>courses/models.py\<close>)\<close>

record SubjectGroup =
  sg_id :: "nat option"
  sg_name :: string
  sg_slug :: string

record Subject =
  subj_id :: "nat option"
  subj_ministry_code :: string
  subj_name :: string
  subj_slug :: string
  subj_group :: "nat option"

text \<open>
  \<^verbatim>\<open>SubjectGroup.save\<close> and \<^verbatim>\<open>Subject.save\<close>. \<open>slugify\<close> is
  \<^verbatim>\<open>django.template.defaultfilters.slugify\<close>, a function of the name alone; it is
  a parameter. A \<^verbatim>\<open>SubjectGroup\<close> has no constrained column besides its key; a
  \<^verbatim>\<open>Subject\<close> needs its \<^verbatim>\<open>group\<close>.
\<close>

definition SubjectGroup_save ::
  "(string \<Rightarrow> string) \<Rightarrow> SubjectGroup \<Rightarrow> SubjectGroup list \<Rightarrow>
   SubjectGroup \<times> (error + SubjectGroup list)" where
  "SubjectGroup_save slugify self rows =
     (let self1 = (if \<not> truthy (sg_id self) then self\<lparr>sg_slug := slugify (sg_name self)\<rparr> else self)
      in Model_save sg_id (\<lambda>k r. r\<lparr>sg_id := Some k\<rparr>) (\<lambda>s others. True) self1 rows)"

definition Subject_save ::
  "(string \<Rightarrow> string) \<Rightarrow> Subject \<Rightarrow> Subject list \<Rightarrow> Subject \<times> (error + Subject list)" where
  "Subject_save slugify self rows =
     (let self1 = (if \<not> truthy (subj_id self) then self\<lparr>subj_slug := slugify (subj_name self)\<rparr> else self)
      in Model_save subj_id (\<lambda>k r. r\<lparr>subj_id := Some k\<rparr>) (\<lambda>s others. subj_group s \<noteq> None) self1 rows)"

subsection \<open>Attendance (\<^verbatim>\<open>courses/models.py\<close>)\<close>

text \<open>The key of an \<^verbatim>\<open>AttendanceCode\<close> is its one-character \<^verbatim>\<open>code\<close>.\<close>

record Attendance =
  att_id :: "nat option"
  att_activity :: "nat option"
  att_student :: "nat option"
  att_code :: "string option"

text \<open>
  \<^verbatim>\<open>Attendance\<close> inherits \<^verbatim>\<open>save\<close>; its three foreign keys are required and no
  column or group of columns is declared unique.
\<close>

definition Attendance_save ::
  "Attendance \<Rightarrow> Attendance list \<Rightarrow> Attendance \<times> (error + Attendance list)" where
  "Attendance_save self rows =
     Model_save att_id (\<lambda>k r. r\<lparr>att_id := Some k\<rparr>)
       (\<lambda>s others. att_activity s \<noteq> None \<and> att_student s \<noteq> None \<and> att_code s \<noteq> None) self rows"

subsection \<open>Saving enrolments\<close>

text \<open>
  \<^verbatim>\<open>courses.models.Enrolment\<close> requires all four columns. The class
  \<^verbatim>\<open>Enrolment\<close> of \<^verbatim>\<open>students/models.py\<close> is a different table: a school, a
  start date and an optional end date. Neither class overrides \<^verbatim>\<open>save\<close> or
  declares a validator.
\<close>

definition Enrolment_save ::
  "Enrolment \<Rightarrow> Enrolment list \<Rightarrow> Enrolment \<times> (error + Enrolment list)" where
  "Enrolment_save self rows =
     Model_save enr_id (\<lambda>k r. r\<lparr>enr_id := Some k\<rparr>)
       (\<lambda>s others. enr_student s \<noteq> None \<and> enr_schedule s \<noteq> None \<and>
                    enr_start s \<noteq> None \<and> enr_end s \<noteq> None) self rows"

record students_Enrolment =
  senr_id :: "nat option"
  senr_school :: "nat option"
  senr_start :: "date option"
  senr_end :: "date option"

definition students_Enrolment_save ::
  "students_Enrolment \<Rightarrow> students_Enrolment list \<Rightarrow>
   students_Enrolment \<times> (error + students_Enrolment list)" where
  "students_Enrolment_save self rows =
     Model_save senr_id (\<lambda>k r. r\<lparr>senr_id := Some k\<rparr>)
       (\<lambda>s others. senr_school s \<noteq> None \<and> senr_start s \<noteq> None) self rows"

text \<open>The order the specification asks of the two dates of an enrolment.\<close>

definition dates_ordered :: "date option \<Rightarrow> date option \<Rightarrow> bool" where
  "dates_ordered s e = (case (s, e) of (Some a, Some b) \<Rightarrow> a \<le> b | _ \<Rightarrow> True)"

subsection \<open>Students (\<^verbatim>\<open>students/models.py\<close>)\<close>

text \<open>
  The columns of \<^verbatim>\<open>Student\<close>. Foreign keys hold the key of the row they name;
  \<^verbatim>\<open>fulltime_equivalent\<close> (one decimal place) is counted in tenths.
\<close>

record Student =
  st_id :: "nat option"
  st_person :: "nat option"
  st_ministry_id :: "int option"
  st_orrs :: string
  st_funding_year_level :: "int option"
  st_student_type :: "nat option"
  st_zoning_status :: "nat option"
  st_tuition_fee :: "int option"
  st_fulltime_equivalent :: "int option"
  st_exchange_scheme :: "nat option"
  st_boarding_status :: bool
  st_eligibility_criteria :: "nat option"
  st_year_level :: "int option"

text \<open>
  The declared constraints: \<^verbatim>\<open>person\<close> and \<^verbatim>\<open>ministry_id\<close> are
  \<^verbatim>\<open>unique=True\<close>; \<^verbatim>\<open>tuition_fee\<close>, \<^verbatim>\<open>fulltime_equivalent\<close>,
  \<^verbatim>\<open>exchange_scheme\<close> and \<^verbatim>\<open>eligibility_criteria\<close> are \<^verbatim>\<open>null=True\<close>, the
  other columns are required.
\<close>

definition Student_constraints :: "Student \<Rightarrow> Student list \<Rightarrow> bool" where
  "Student_constraints s others =
     (st_person s \<noteq> None \<and> st_ministry_id s \<noteq> None \<and> st_funding_year_level s \<noteq> None \<and>
      st_student_type s \<noteq> None \<and> st_zoning_status s \<noteq> None \<and> st_year_level s \<noteq> None \<and>
      st_person s \<notin> set (map st_person others) \<and>
      st_ministry_id s \<notin> set (map st_ministry_id others))"

text \<open>
  \<^verbatim>\<open>Student(person=p, ministry_id=m, funding_year_level=f, year_level=y)\<close>: the other
  columns take their declared defaults.
\<close>

definition Student_new :: "nat \<Rightarrow> int \<Rightarrow> int \<Rightarrow> int \<Rightarrow> Student" where
  "Student_new p m f y =
     \<lparr>st_id = None, st_person = Some p, st_ministry_id = Some m, st_orrs = ''N'',
      st_funding_year_level = Some f, st_student_type = Some 1, st_zoning_status = Some 3,
      st_tuition_fee = None, st_fulltime_equivalent = None, st_exchange_scheme = None,
      st_boarding_status = False, st_eligibility_criteria = Some 1, st_year_level = Some y\<rparr>"

definition Student_save :: "Student \<Rightarrow> Student list \<Rightarrow> Student \<times> (error + Student list)" where
  "Student_save self rows =
     Model_save st_id (\<lambda>k r. r\<lparr>st_id := Some k\<rparr>) Student_constraints self rows"

text \<open>
  A \<^verbatim>\<open>Student\<close> row disappears when it is deleted and when a row it names through
  a foreign key is deleted.
\<close>

datatype Student_fk =
  FK_person | FK_student_type | FK_zoning_status | FK_exchange_scheme | FK_eligibility_criteria

fun fk_value :: "Student_fk \<Rightarrow> Student \<Rightarrow> nat option" where
  "fk_value FK_person s = st_person s"
| "fk_value FK_student_type s = st_student_type s"
| "fk_value FK_zoning_status s = st_zoning_status s"
| "fk_value FK_exchange_scheme s = st_exchange_scheme s"
| "fk_value FK_eligibility_criteria s = st_eligibility_criteria s"

datatype Student_op =
  Op_save Student
| Op_delete nat
| Op_delete_referenced Student_fk nat

text \<open>One operation on the table; a rejected save leaves the table as it was.\<close>

fun Student_step :: "Student_op \<Rightarrow> Student list \<Rightarrow> Student list" where
  "Student_step (Op_save s) rows =
     (case snd (Student_save s rows) of Inl e \<Rightarrow> rows | Inr rows' \<Rightarrow> rows')"
| "Student_step (Op_delete k) rows = filter (\<lambda>r. st_id r \<noteq> Some k) rows"
| "Student_step (Op_delete_referenced fk k) rows = filter (\<lambda>r. fk_value fk r \<noteq> Some k) rows"

text \<open>The states of the table that are reachable from the empty table.\<close>

definition Student_table :: "Student_op list \<Rightarrow> Student list" where
  "Student_table ops = fold Student_step ops []"

text \<open>
  What the declarations of \<^verbatim>\<open>Student\<close> promise of a table: every row has its key,
  its person and its ministry id, and no two rows share any of the three.
\<close>

definition Student_inv :: "Student list \<Rightarrow> bool" where
  "Student_inv rows \<longleftrightarrow>
     (\<forall>s \<in> set rows. st_id s \<noteq> None \<and> st_person s \<noteq> None \<and> st_ministry_id s \<noteq> None) \<and>
     distinct (map st_id rows) \<and> distinct (map st_person rows) \<and>
     distinct (map st_ministry_id rows)"

subsection \<open>Pages (\<^verbatim>\<open>courses/models.py\<close>)\<close>

text \<open>
  \<^verbatim>\<open>content_type\<close> is a foreign key to the table of \<^verbatim>\<open>ContentType\<close> rows and holds
  the key of such a row; with \<^verbatim>\<open>object_id\<close> it forms the polymorphic reference of
  the page.
\<close>

record Page =
  page_id :: "nat option"
  page_name :: string
  page_content :: string
  page_course :: "nat option"
  page_parent :: "nat option"
  page_content_type :: "nat option"
  page_object_id :: "nat option"

text \<open>
  \<^verbatim>\<open>Page(name=n, content=t, course=c, parent=p)\<close>: the key is unset and nothing is
  attached.
\<close>

definition Page_new :: "string \<Rightarrow> string \<Rightarrow> nat \<Rightarrow> nat option \<Rightarrow> Page" where
  "Page_new n t c p =
     \<lparr>page_id = None, page_name = n, page_content = t, page_course = Some c, page_parent = p,
      page_content_type = None, page_object_id = None\<rparr>"

definition find_page :: "nat \<Rightarrow> Page list \<Rightarrow> Page option" where
  "find_page k rows = find (\<lambda>r. page_id r = Some k) rows"

text \<open>
  The chain of parents that starts at a parent pointer, nearest first, followed for at
  most \<open>n\<close> steps.
\<close>

fun ancestors :: "nat \<Rightarrow> Page list \<Rightarrow> nat option \<Rightarrow> nat list" where
  "ancestors 0 rows p = []"
| "ancestors (Suc n) rows None = []"
| "ancestors (Suc n) rows (Some k) =
     k # (case find_page k rows of None \<Rightarrow> [] | Some r \<Rightarrow> ancestors n rows (page_parent r))"

text \<open>
  Modelled from the spec: the check of the hierarchy library (django-mptt, the base class
  \<^verbatim>\<open>MPTTModel\<close> of \<^verbatim>\<open>Page\<close>), whose code is not part of the repository. The spec
  says that parent and child must not cycle and that the library enforces it: the parent
  of a saved page has to be a stored page (the library reads it to place the node), and
  a stored page is not moved under itself or under one of its descendants.
\<close>

definition mptt_check :: "Page \<Rightarrow> Page list \<Rightarrow> error option" where
  "mptt_check self rows =
     (case page_parent self of
        None \<Rightarrow> None
      | Some p \<Rightarrow>
          if p \<notin> set (stored_pks page_id rows) then Some DoesNotExist
          else (case page_id self of
                  None \<Rightarrow> None
                | Some k \<Rightarrow>
                    if k = p \<or> k \<in> set (ancestors (length rows) rows (Some p))
                    then Some InvalidMove else None))"

text \<open>\<^verbatim>\<open>Page.save\<close>: the library's check, then the inherited save; a page needs its course.\<close>

definition Page_save :: "Page \<Rightarrow> Page list \<Rightarrow> Page \<times> (error + Page list)" where
  "Page_save self rows =
     (case mptt_check self rows of
        Some e \<Rightarrow> (self, Inl e)
      | None \<Rightarrow>
          Model_save page_id (\<lambda>k r. r\<lparr>page_id := Some k\<rparr>) (\<lambda>s others. page_course s \<noteq> None)
            self rows)"

text \<open>
  Deleting pages: the pages \<open>roots\<close> go, and with them every page that has one of them
  among its ancestors (the foreign key \<^verbatim>\<open>parent\<close> cascades).
\<close>

definition doomed :: "nat list \<Rightarrow> Page list \<Rightarrow> Page \<Rightarrow> bool" where
  "doomed roots rows r =
     (page_id r \<in> set (map Some roots) \<or>
      set (ancestors (length rows) rows (page_parent r)) \<inter> set roots \<noteq> {})"

definition Page_cascade :: "nat list \<Rightarrow> Page list \<Rightarrow> Page list" where
  "Page_cascade roots rows = filter (\<lambda>r. \<not> doomed roots rows r) rows"

text \<open>The pages that name one of the courses \<open>gone\<close>, and those that name a content type.\<close>

definition pages_of_courses :: "nat list \<Rightarrow> Page list \<Rightarrow> nat list" where
  "pages_of_courses gone rows =
     stored_pks page_id (filter (\<lambda>r. page_course r \<in> set (map Some gone)) rows)"

definition pages_of_content_type :: "nat \<Rightarrow> Page list \<Rightarrow> nat list" where
  "pages_of_content_type c rows =
     stored_pks page_id (filter (\<lambda>r. page_content_type r = Some c) rows)"

datatype Page_op =
  Page_op_save Page
| Page_op_delete nat
| Page_op_delete_courses "nat list"
| Page_op_delete_content_type nat

text \<open>
  One operation on the table of pages: a save (a rejected one changes nothing), the
  deletion of a page, the deletion of courses (one course, or the courses of a deleted
  subject, subject group or instructional year level), which takes the pages of these
  courses, and the deletion of a \<^verbatim>\<open>ContentType\<close> row, which takes the pages that name
  it.
\<close>

fun Page_step :: "Page_op \<Rightarrow> Page list \<Rightarrow> Page list" where
  "Page_step (Page_op_save s) rows =
     (case snd (Page_save s rows) of Inl e \<Rightarrow> rows | Inr rows' \<Rightarrow> rows')"
| "Page_step (Page_op_delete k) rows = Page_cascade [k] rows"
| "Page_step (Page_op_delete_courses gone) rows =
     Page_cascade (pages_of_courses gone rows) rows"
| "Page_step (Page_op_delete_content_type c) rows =
     Page_cascade (pages_of_content_type c rows) rows"

definition Page_table :: "Page_op list \<Rightarrow> Page list" where
  "Page_table ops = fold Page_step ops []"

text \<open>The parent pointers of a table, as edges from a page to its parent.\<close>

definition parent_edges :: "Page list \<Rightarrow> (nat \<times> nat) set" where
  "parent_edges rows =
     {(k, p). \<exists>r \<in> set rows. page_id r = Some k \<and> page_parent r = Some p}"

text \<open>
  The shape of a table of pages: every row has a key, keys are not repeated, every parent
  pointer names a stored page, and the parent pointers form no cycle.
\<close>

definition Page_inv :: "Page list \<Rightarrow> bool" where
  "Page_inv rows \<longleftrightarrow>
     (\<forall>r \<in> set rows. page_id r \<noteq> None) \<and> distinct (map page_id rows) \<and>
     (\<forall>r \<in> set rows. \<forall>p. page_parent r = Some p \<longrightarrow> p \<in> set (stored_pks page_id rows)) \<and>
     acyclic (parent_edges rows)"

subsection \<open>Polymorphic references and deletion (\<^verbatim>\<open>courses/models.py\<close>)\<close>

text \<open>
  The model classes. Those of \<^verbatim>\<open>courses/models.py\<close> and \<^verbatim>\<open>ContentType\<close> are
  listed; \<open>M_Other app model\<close> is any other model, by its application and its name.
\<close>

datatype model_class =
  M_SubjectGroup | M_Subject | M_InstructionalYearLevel | M_Assessment | M_Course
| M_Page | M_Grade | M_Submission | M_Schedule | M_Activity | M_AttendanceCode
| M_Attendance | M_Enrolment | M_EventType | M_Event | M_ContentType
| M_Other string string

text \<open>
  A row of \<^verbatim>\<open>django.contrib.contenttypes.models.ContentType\<close> stands for one model,
  which it names by application label and lower-case class name.
\<close>

record ContentType =
  ct_id :: "nat option"
  ct_name :: string
  ct_app_label :: string
  ct_model :: string

fun natural_key :: "model_class \<Rightarrow> string \<times> string" where
  "natural_key M_SubjectGroup = (''courses'', ''subjectgroup'')"
| "natural_key M_Subject = (''courses'', ''subject'')"
| "natural_key M_InstructionalYearLevel = (''courses'', ''instructionalyearlevel'')"
| "natural_key M_Assessment = (''courses'', ''assessment'')"
| "natural_key M_Course = (''courses'', ''course'')"
| "natural_key M_Page = (''courses'', ''page'')"
| "natural_key M_Grade = (''courses'', ''grade'')"
| "natural_key M_Submission = (''courses'', ''submission'')"
| "natural_key M_Schedule = (''courses'', ''schedule'')"
| "natural_key M_Activity = (''courses'', ''activity'')"
| "natural_key M_AttendanceCode = (''courses'', ''attendancecode'')"
| "natural_key M_Attendance = (''courses'', ''attendance'')"
| "natural_key M_Enrolment = (''courses'', ''enrolment'')"
| "natural_key M_EventType = (''courses'', ''eventtype'')"
| "natural_key M_Event = (''courses'', ''event'')"
| "natural_key M_ContentType = (''contenttypes'', ''contenttype'')"
| "natural_key (M_Other app model) = (app, model)"

text \<open>\<^verbatim>\<open>ContentType.objects.get_for_model\<close>: the key of the row that stands for a model.\<close>

definition get_for_model :: "model_class \<Rightarrow> ContentType list \<Rightarrow> nat option" where
  "get_for_model m cts =
     (case find (\<lambda>c. (ct_app_label c, ct_model c) = natural_key m) cts of
        None \<Rightarrow> None
      | Some c \<Rightarrow> ct_id c)"

text \<open>
  The polymorphic reference \<^verbatim>\<open>(content_type, object_id)\<close> resolves to the row \<open>x\<close>
  of the model \<open>m\<close>.
\<close>

definition refers_to ::
  "nat option \<Rightarrow> nat option \<Rightarrow> model_class \<Rightarrow> nat \<Rightarrow> ContentType list \<Rightarrow> bool" where
  "refers_to content_type object_id m x cts =
     (content_type \<noteq> None \<and> content_type = get_for_model m cts \<and> object_id = Some x)"

record InstructionalYearLevel =
  iyl_id :: "nat option"
  iyl_ministry_code :: string
  iyl_description :: string

text \<open>
  An \<^verbatim>\<open>Assessment\<close> carries the same kind of reference as a \<^verbatim>\<open>Page\<close>; on an
  assessment both columns are required.
\<close>

record Assessment =
  asm_id :: "nat option"
  asm_name :: "string option"
  asm_content_type :: "nat option"
  asm_object_id :: "nat option"

record Course =
  course_id :: "nat option"
  course_subject :: "nat option"
  course_instructional_year_level :: "nat option"
  course_name :: string

text \<open>
  \<^verbatim>\<open>Activity.schedules\<close> is a many-to-many relation, the list of schedule keys. The
  class also declares \<^verbatim>\<open>assessments = generic.GenericRelation(Assessment)\<close>, the
  reverse side of the polymorphic reference of \<^verbatim>\<open>Assessment\<close>; it is no column.
\<close>

record Activity =
  act_id :: "nat option"
  act_schedules :: "nat list"
  act_subject :: string
  act_track_attendance :: bool
  act_start :: "date option"
  act_end :: "date option"
  act_created :: "date option"
  act_last_modified :: "date option"

text \<open>
  The tables that hold assessments and pages, and the tables whose rows they name, directly
  or through a chain of foreign keys: a page names its course, its parent page and its
  content type, an assessment its content type, a course its subject and its
  instructional year level, a subject its group, a schedule its course, and an activity
  its schedules; an activity also owns the assessments attached to it. The other tables
  of the application (grades, submissions, attendance, enrolments, events, students) are
  named by no row of these tables, so deleting one of their rows leaves these tables as
  they are; they are not part of this state.
\<close>

record database =
  db_content_types :: "ContentType list"
  db_subject_groups :: "SubjectGroup list"
  db_subjects :: "Subject list"
  db_instructional_year_levels :: "InstructionalYearLevel list"
  db_courses :: "Course list"
  db_schedules :: "Schedule list"
  db_pages :: "Page list"
  db_assessments :: "Assessment list"
  db_activities :: "Activity list"

text \<open>Removing schedules from the many-to-many relation of the activities.\<close>

definition unlink_schedules :: "nat list \<Rightarrow> Activity list \<Rightarrow> Activity list" where
  "unlink_schedules gone acts =
     map (\<lambda>a. a\<lparr>act_schedules := filter (\<lambda>k. k \<notin> set gone) (act_schedules a)\<rparr>) acts"

text \<open>Deleting the courses \<open>gone\<close>: their schedules and their pages go with them.\<close>

definition delete_courses :: "nat list \<Rightarrow> database \<Rightarrow> database" where
  "delete_courses gone d =
     d\<lparr>db_courses := filter (\<lambda>c. course_id c \<notin> set (map Some gone)) (db_courses d),
       db_schedules := filter (\<lambda>s. sched_course s \<notin> set (map Some gone)) (db_schedules d),
       db_activities :=
         unlink_schedules
           (stored_pks sched_id (filter (\<lambda>s. sched_course s \<in> set (map Some gone)) (db_schedules d)))
           (db_activities d),
       db_pages := Page_cascade (pages_of_courses gone (db_pages d)) (db_pages d)\<rparr>"

text \<open>The courses that go when the row \<open>x\<close> of the model \<open>m\<close> is deleted.\<close>

fun courses_of :: "model_class \<Rightarrow> nat \<Rightarrow> database \<Rightarrow> nat list" where
  "courses_of M_SubjectGroup x d =
     stored_pks course_id
       (filter (\<lambda>c. course_subject c \<in> set (map Some
            (stored_pks subj_id (filter (\<lambda>s. subj_group s = Some x) (db_subjects d)))))
          (db_courses d))"
| "courses_of M_Subject x d =
     stored_pks course_id (filter (\<lambda>c. course_subject c = Some x) (db_courses d))"
| "courses_of M_InstructionalYearLevel x d =
     stored_pks course_id
       (filter (\<lambda>c. course_instructional_year_level c = Some x) (db_courses d))"
| "courses_of M_Course x d = [x]"
| "courses_of m x d = []"

text \<open>
  \<^verbatim>\<open>Model.delete\<close> on the row with key \<open>x\<close> of the model \<open>m\<close>. The rows that name a
  deleted row through a foreign key are deleted with it, a deleted schedule leaves the
  many-to-many relation of the activities, and the assessments attached to a deleted
  activity are deleted through its \<^verbatim>\<open>GenericRelation\<close>. The foreign keys
  \<^verbatim>\<open>content_type\<close> of \<^verbatim>\<open>Assessment\<close> and \<^verbatim>\<open>Page\<close> cascade like any other; the
  polymorphic reference itself, on a page or on an assessment attached to a row that is
  no activity, plays no part.
\<close>

fun Model_delete :: "model_class \<Rightarrow> nat \<Rightarrow> database \<Rightarrow> database" where
  "Model_delete M_SubjectGroup x d =
     delete_courses (courses_of M_SubjectGroup x d)
       (d\<lparr>db_subject_groups := filter (\<lambda>g. sg_id g \<noteq> Some x) (db_subject_groups d),
          db_subjects := filter (\<lambda>s. subj_group s \<noteq> Some x) (db_subjects d)\<rparr>)"
| "Model_delete M_Subject x d =
     delete_courses (courses_of M_Subject x d)
       (d\<lparr>db_subjects := filter (\<lambda>s. subj_id s \<noteq> Some x) (db_subjects d)\<rparr>)"
| "Model_delete M_InstructionalYearLevel x d =
     delete_courses (courses_of M_InstructionalYearLevel x d)
       (d\<lparr>db_instructional_year_levels :=
            filter (\<lambda>l. iyl_id l \<noteq> Some x) (db_instructional_year_levels d)\<rparr>)"
| "Model_delete M_Course x d = delete_courses [x] d"
| "Model_delete M_Schedule x d =
     d\<lparr>db_schedules := filter (\<lambda>s. sched_id s \<noteq> Some x) (db_schedules d),
       db_activities := unlink_schedules [x] (db_activities d)\<rparr>"
| "Model_delete M_Page x d = d\<lparr>db_pages := Page_cascade [x] (db_pages d)\<rparr>"
| "Model_delete M_Assessment x d =
     d\<lparr>db_assessments := filter (\<lambda>a. asm_id a \<noteq> Some x) (db_assessments d)\<rparr>"
| "Model_delete M_Activity x d =
     d\<lparr>db_activities := filter (\<lambda>a. act_id a \<noteq> Some x) (db_activities d),
       db_assessments :=
         filter (\<lambda>a. \<not> refers_to (asm_content_type a) (asm_object_id a) M_Activity x
                        (db_content_types d))
           (db_assessments d)\<rparr>"
| "Model_delete M_ContentType x d =
     d\<lparr>db_content_types := filter (\<lambda>c. ct_id c \<noteq> Some x) (db_content_types d),
       db_assessments := filter (\<lambda>a. asm_content_type a \<noteq> Some x) (db_assessments d),
       db_pages := Page_cascade (pages_of_content_type x (db_pages d)) (db_pages d)\<rparr>"
| "Model_delete m x d = d"

text \<open>
  The pages that name a row deleted with the row \<open>x\<close> of the model \<open>m\<close> through one of
  their foreign keys \<^verbatim>\<open>course\<close> and \<^verbatim>\<open>content_type\<close>, and the page \<open>x\<close> itself.
\<close>

definition page_roots :: "model_class \<Rightarrow> nat \<Rightarrow> database \<Rightarrow> nat list" where
  "page_roots m x d =
     (if m = M_Page then [x]
      else if m = M_ContentType then pages_of_content_type x (db_pages d)
      else pages_of_courses (courses_of m x d) (db_pages d))"

subsection \<open>URL configuration (\<^verbatim>\<open>students/urls.py\<close>)\<close>

text \<open>
  \<^verbatim>\<open>patterns(prefix, *tuples)\<close>: each tuple is a regular expression and the name of
  a view; a non-empty prefix is joined to the view name with a dot.
\<close>

definition patterns :: "string \<Rightarrow> (string \<times> string) list \<Rightarrow> (string \<times> string) list" where
  "patterns prefix tuples =
     map (\<lambda>(regex, view). (regex, if prefix = [] then view else prefix @ ''.'' @ view)) tuples"

definition urlpatterns :: "(string \<times> string) list" where
  "urlpatterns = patterns ''kapua.students.views'' [(''^$'', ''index'')]"

text \<open>
  Matching, for regular expressions made of the anchors \<^verbatim>\<open>^\<close> and \<^verbatim>\<open>$\<close> and of
  ordinary characters (all that the active pattern uses). \<open>at_start\<close> tells whether
  the text is the whole path; \<^verbatim>\<open>$\<close> matches at the end of the path and before a
  final newline. \<open>re_search\<close> tries every position, as \<^verbatim>\<open>regex.search\<close> does.
\<close>

fun match_here :: "string \<Rightarrow> string \<Rightarrow> bool \<Rightarrow> bool" where
  "match_here [] s at_start = True"
| "match_here (c # p) s at_start =
     (if c = CHR ''^'' then at_start \<and> match_here p s at_start
      else if c = CHR ''$'' then (s = [] \<or> s = [CHR 0x0A]) \<and> match_here p s at_start
      else (case s of [] \<Rightarrow> False | d # s' \<Rightarrow> c = d \<and> match_here p s' False))"

fun re_search :: "string \<Rightarrow> string \<Rightarrow> bool \<Rightarrow> bool" where
  "re_search p [] at_start = match_here p [] at_start"
| "re_search p (d # s) at_start = (match_here p (d # s) at_start \<or> re_search p s False)"

text \<open>The resolver returns the view of the first pattern that matches the path.\<close>

fun resolve :: "(string \<times> string) list \<Rightarrow> string \<Rightarrow> string option" where
  "resolve [] path = None"
| "resolve ((regex, view) # ps) path =
     (if re_search regex path True then Some view else resolve ps path)"

section \<open>Properties\<close>

subsection \<open>Current students of a schedule\<close>

lemma get_current_students_set:
  "set (get_current_students self today objects) =
     {e \<in> set objects. enr_id e = sched_id self \<and> lte (enr_start e) today \<and> gte (enr_end e) today}"
  by (auto simp: get_current_students_def)

text \<open>
  C1. The claim asks for the enrolments whose schedule is the given schedule and whose
  date range contains today. The code selects by the enrolment's own primary key: for
  schedule 1 and today = 15, the enrolment with key 2 of schedule 1, running from day 10
  to day 20, is not returned, and the enrolment with key 1 of schedule 2 is.
\<close>

theorem get_current_students_wrong_key:
  "get_current_students
     \<lparr>sched_id = Some 1, sched_name = ''A'', sched_course = Some 1,
      sched_created = Some 1, sched_last_modified = Some 1\<rparr> 15
     [\<lparr>enr_id = Some 1, enr_student = Some 7, enr_schedule = Some 2,
       enr_start = Some 10, enr_end = Some 20\<rparr>,
      \<lparr>enr_id = Some 2, enr_student = Some 7, enr_schedule = Some 1,
       enr_start = Some 10, enr_end = Some 20\<rparr>]
   = [\<lparr>enr_id = Some 1, enr_student = Some 7, enr_schedule = Some 2,
       enr_start = Some 10, enr_end = Some 20\<rparr>]"
  by (simp add: get_current_students_def lte_def gte_def)

subsection \<open>Saving a model instance\<close>

lemma max_list_ge: "x \<in> set xs \<Longrightarrow> x \<le> max_list xs"
  by (induction xs) auto

lemma fresh_pk_notin: "fresh_pk pk_of rows \<notin> set (stored_pks pk_of rows)"
  using max_list_ge [of "fresh_pk pk_of rows" "stored_pks pk_of rows"]
  by (auto simp: fresh_pk_def)

lemma fresh_pk_pos: "0 < fresh_pk pk_of rows"
  by (simp add: fresh_pk_def)

lemma stored_pks_iff: "k \<in> set (stored_pks pk_of rows) \<longleftrightarrow> (\<exists>r \<in> set rows. pk_of r = Some k)"
  by (force simp: stored_pks_def map_filter_def)

lemma Model_save_new:
  "pk_of self = None \<Longrightarrow> ok self rows \<Longrightarrow>
   Model_save pk_of set_pk ok self rows =
     (set_pk (fresh_pk pk_of rows) self, Inr (rows @ [set_pk (fresh_pk pk_of rows) self]))"
  by (simp add: Model_save_def Let_def)

lemma Model_save_new_rejected:
  "pk_of self = None \<Longrightarrow> \<not> ok self rows \<Longrightarrow>
   Model_save pk_of set_pk ok self rows = (self, Inl IntegrityError)"
  by (simp add: Model_save_def)




lemma Model_save_result:
  assumes "Model_save pk_of set_pk ok self rows = (self', Inr rows')"
  shows "self' \<in> set rows' \<and> set rows' \<subseteq> insert self' (set rows) \<and>
         (self' = self \<or> self' = set_pk (fresh_pk pk_of rows) self)"
  using assms
  by (auto simp: Model_save_def Let_def stored_pks_iff split: option.splits if_splits)

lemma Model_save_accepted:
  assumes "\<And>others. ok self others"
  shows "\<exists>self' rows'. Model_save pk_of set_pk ok self rows = (self', Inr rows')"
  using assms by (simp add: Model_save_def Let_def split: option.splits)

lemma replace_other_rows:
  assumes "\<forall>r \<in> set rows. pk_of r \<noteq> Some k"
  shows "map (\<lambda>r. if pk_of r = Some k then self else r) rows = rows"
  using assms by (induction rows) auto

lemma distinct_map_replace:
  assumes "distinct (map pk_of rows)" and "distinct (map f rows)"
    and "f self \<notin> f ` {r \<in> set rows. pk_of r \<noteq> Some k}"
  shows "distinct (map f (map (\<lambda>r. if pk_of r = Some k then self else r) rows))"
  using assms
proof (induction rows)
  case Nil
  then show ?case by simp
next
  case (Cons r rs)
  show ?case
  proof (cases "pk_of r = Some k")
    case True
    with Cons.prems(1) have others: "\<forall>x \<in> set rs. pk_of x \<noteq> Some k"
      by (auto simp: image_iff)
    then have same: "map (\<lambda>r. if pk_of r = Some k then self else r) rs = rs"
      by (rule replace_other_rows)
    from others Cons.prems(3) have "f self \<notin> f ` set rs" by auto
    with Cons.prems(2) True same show ?thesis by simp
  next
    case False
    from Cons.prems have ih: "distinct (map f (map (\<lambda>r. if pk_of r = Some k then self else r) rs))"
      by (intro Cons.IH) auto
    from False have "r \<in> {x \<in> set (r # rs). pk_of x \<noteq> Some k}" by simp
    with Cons.prems(3) have "f r \<noteq> f self" by (metis imageI)
    moreover from Cons.prems(2) have "f r \<notin> f ` set rs" by simp
    ultimately have "f r \<notin> set (map f (map (\<lambda>r. if pk_of r = Some k then self else r) rs))"
      by (auto split: if_splits)
    with ih False show ?thesis by (simp del: map_map)
  qed
qed

lemma map_pk_replace:
  assumes "pk_of self = Some k"
  shows "map pk_of (map (\<lambda>r. if pk_of r = Some k then self else r) rows) = map pk_of rows"
  using assms by (induction rows) auto

lemma Model_save_rows_set:
  assumes "Model_save pk_of set_pk ok self rows = (self', Inr rows')"
    and "\<And>k x. pk_of (set_pk k x) = Some k"
  shows "set rows' = insert self' {r \<in> set rows. pk_of r \<noteq> pk_of self'}"
proof (cases "pk_of self")
  case None
  with assms(1) have r: "self' = set_pk (fresh_pk pk_of rows) self" "rows' = rows @ [self']"
    by (auto simp: Model_save_def Let_def split: if_splits)
  have "\<forall>x \<in> set rows. pk_of x \<noteq> Some (fresh_pk pk_of rows)"
    using fresh_pk_notin [of pk_of rows] by (auto simp: stored_pks_iff)
  with r assms(2) show ?thesis by auto
next
  case (Some k)
  show ?thesis
  proof (cases "k \<in> set (stored_pks pk_of rows)")
    case False
    with Some assms(1) have r: "self' = self" "rows' = rows @ [self]"
      by (auto simp: Model_save_def split: if_splits)
    from False have "\<forall>x \<in> set rows. pk_of x \<noteq> Some k" by (auto simp: stored_pks_iff)
    with r Some show ?thesis by auto
  next
    case True
    with Some assms(1) have r: "self' = self"
      "rows' = map (\<lambda>r. if pk_of r = Some k then self else r) rows"
      by (auto simp: Model_save_def split: if_splits)
    from True obtain x where "x \<in> set rows" "pk_of x = Some k" by (auto simp: stored_pks_iff)
    with r Some show ?thesis by (auto simp: image_iff)
  qed
qed



subsection \<open>Slugs of subject groups and subjects\<close>

lemma SubjectGroup_save_new:
  assumes "sg_id g = None"
  shows "SubjectGroup_save slugify g rows =
     (g\<lparr>sg_slug := slugify (sg_name g), sg_id := Some (fresh_pk sg_id rows)\<rparr>,
      Inr (rows @ [g\<lparr>sg_slug := slugify (sg_name g), sg_id := Some (fresh_pk sg_id rows)\<rparr>]))"
  using assms by (simp add: SubjectGroup_save_def truthy_def Model_save_new)


lemma Subject_save_new:
  assumes "subj_id s = None"
  shows "Subject_save slugify s rows =
     (if subj_group s = None then (s\<lparr>subj_slug := slugify (subj_name s)\<rparr>, Inl IntegrityError)
      else (s\<lparr>subj_slug := slugify (subj_name s), subj_id := Some (fresh_pk subj_id rows)\<rparr>,
        Inr (rows @ [s\<lparr>subj_slug := slugify (subj_name s), subj_id := Some (fresh_pk subj_id rows)\<rparr>])))"
  using assms by (simp add: Subject_save_def truthy_def Model_save_def Let_def)



text \<open>
  C9. A \<^verbatim>\<open>SubjectGroup\<close> or \<^verbatim>\<open>Subject\<close> whose \<^verbatim>\<open>id\<close> is unset: \<^verbatim>\<open>save\<close>
  replaces whatever slug the caller assigned by the slugified name, in the object and in
  the row it stores. A \<^verbatim>\<open>SubjectGroup\<close> is always stored; a \<^verbatim>\<open>Subject\<close> is stored
  when its group is set, and has its slug overwritten in either case.
\<close>

theorem unsaved_slug_overwritten:
  "(sg_id g = None \<longrightarrow>
      (\<exists>k. SubjectGroup_save slugify g rows =
         (g\<lparr>sg_slug := slugify (sg_name g), sg_id := Some k\<rparr>,
          Inr (rows @ [g\<lparr>sg_slug := slugify (sg_name g), sg_id := Some k\<rparr>])))) \<and>
   (subj_id s = None \<longrightarrow>
      subj_slug (fst (Subject_save slugify s srows)) = slugify (subj_name s) \<and>
      (subj_group s \<noteq> None \<longrightarrow>
         (\<exists>k. Subject_save slugify s srows =
            (s\<lparr>subj_slug := slugify (subj_name s), subj_id := Some k\<rparr>,
             Inr (srows @ [s\<lparr>subj_slug := slugify (subj_name s), subj_id := Some k\<rparr>])))))"
  by (auto simp: SubjectGroup_save_new Subject_save_new)

theorem unsaved_slug_overwritten_witness:
  "sg_id \<lparr>sg_id = None, sg_name = ''Core Subjects'', sg_slug = ''mine''\<rparr> = None \<and>
   SubjectGroup_save (map (\<lambda>c. if c = CHR '' '' then CHR ''-'' else c))
       \<lparr>sg_id = None, sg_name = ''Core Subjects'', sg_slug = ''mine''\<rparr> [] =
     (\<lparr>sg_id = Some 1, sg_name = ''Core Subjects'', sg_slug = ''Core-Subjects''\<rparr>,
      Inr [\<lparr>sg_id = Some 1, sg_name = ''Core Subjects'', sg_slug = ''Core-Subjects''\<rparr>]) \<and>
   subj_id \<lparr>subj_id = None, subj_ministry_code = ''MATH'', subj_name = ''Pure Maths'',
            subj_slug = ''mine'', subj_group = Some 1\<rparr> = None \<and>
   Subject_save (map (\<lambda>c. if c = CHR '' '' then CHR ''-'' else c))
       \<lparr>subj_id = None, subj_ministry_code = ''MATH'', subj_name = ''Pure Maths'',
        subj_slug = ''mine'', subj_group = Some 1\<rparr> [] =
     (\<lparr>subj_id = Some 1, subj_ministry_code = ''MATH'', subj_name = ''Pure Maths'',
       subj_slug = ''Pure-Maths'', subj_group = Some 1\<rparr>,
      Inr [\<lparr>subj_id = Some 1, subj_ministry_code = ''MATH'', subj_name = ''Pure Maths'',
            subj_slug = ''Pure-Maths'', subj_group = Some 1\<rparr>])"
  using unsaved_slug_overwritten
    [of "\<lparr>sg_id = None, sg_name = ''Core Subjects'', sg_slug = ''mine''\<rparr>"
        "map (\<lambda>c. if c = CHR '' '' then CHR ''-'' else c)" "[]"
        "\<lparr>subj_id = None, subj_ministry_code = ''MATH'', subj_name = ''Pure Maths'',
          subj_slug = ''mine'', subj_group = Some 1\<rparr>" "[]"]
  by (simp add: SubjectGroup_save_def Subject_save_def Model_save_def truthy_def
      fresh_pk_def stored_pks_def map_filter_def Let_def)









subsection \<open>Dates of an enrolment\<close>

lemma students_Enrolment_save_rows:
  assumes "students_Enrolment_save e rows = (e', Inr rows')"
  shows "set rows' = insert e' {r \<in> set rows. senr_id r \<noteq> senr_id e'}"
  using assms unfolding students_Enrolment_save_def
  by (rule Model_save_rows_set) simp

lemma Enrolment_save_rows:
  assumes "Enrolment_save e rows = (e', Inr rows')"
  shows "set rows' = insert e' {r \<in> set rows. enr_id r \<noteq> enr_id e'}"
  using assms unfolding Enrolment_save_def
  by (rule Model_save_rows_set) simp

lemma students_Enrolment_save_dates:
  assumes "students_Enrolment_save e rows = (e', Inr rows')"
  shows "e' \<in> set rows' \<and> set rows' \<subseteq> insert e' (set rows) \<and>
         senr_start e' = senr_start e \<and> senr_end e' = senr_end e"
  using Model_save_result [OF assms [unfolded students_Enrolment_save_def]] by auto

lemma Enrolment_save_dates:
  assumes "Enrolment_save e rows = (e', Inr rows')"
  shows "e' \<in> set rows' \<and> set rows' \<subseteq> insert e' (set rows) \<and>
         enr_start e' = enr_start e \<and> enr_end e' = enr_end e"
  using Model_save_result [OF assms [unfolded Enrolment_save_def]] by auto

text \<open>
  C3, as stated, fails: no operation compares the two dates. An enrolment that ends on
  day 5 and starts on day 10 is saved into the empty table of either \<^verbatim>\<open>Enrolment\<close>
  class and stored as given.
\<close>

theorem enrolment_end_before_start_accepted:
  "students_Enrolment_save
     \<lparr>senr_id = None, senr_school = Some 1, senr_start = Some 10, senr_end = Some 5\<rparr> [] =
     (\<lparr>senr_id = Some 1, senr_school = Some 1, senr_start = Some 10, senr_end = Some 5\<rparr>,
      Inr [\<lparr>senr_id = Some 1, senr_school = Some 1, senr_start = Some 10, senr_end = Some 5\<rparr>]) \<and>
   \<not> dates_ordered (Some 10) (Some 5) \<and>
   Enrolment_save
     \<lparr>enr_id = None, enr_student = Some 1, enr_schedule = Some 1,
      enr_start = Some 10, enr_end = Some 5\<rparr> [] =
     (\<lparr>enr_id = Some 1, enr_student = Some 1, enr_schedule = Some 1,
       enr_start = Some 10, enr_end = Some 5\<rparr>,
      Inr [\<lparr>enr_id = Some 1, enr_student = Some 1, enr_schedule = Some 1,
            enr_start = Some 10, enr_end = Some 5\<rparr>])"
  by (simp add: students_Enrolment_save_def Enrolment_save_def Model_save_def dates_ordered_def
      fresh_pk_def stored_pks_def map_filter_def Let_def)

text \<open>
  C3, amended. A save (insert or update) of an enrolment is accepted whenever its required
  columns are present, whatever the order of its dates, and the stored record carries the
  dates as given. After an accepted save, the end of every stored record that has one is
  not before its start exactly when this holds for the saved record and for every record
  of the table that the save did not replace.
\<close>

theorem enrolment_dates_not_checked:
  "(senr_school e \<noteq> None \<and> senr_start e \<noteq> None \<longrightarrow>
      (\<exists>e' rows'. students_Enrolment_save e rows = (e', Inr rows') \<and> e' \<in> set rows' \<and>
         senr_start e' = senr_start e \<and> senr_end e' = senr_end e)) \<and>
   (\<forall>e' rows'. students_Enrolment_save e rows = (e', Inr rows') \<longrightarrow>
      ((\<forall>r \<in> set rows'. dates_ordered (senr_start r) (senr_end r)) \<longleftrightarrow>
       dates_ordered (senr_start e) (senr_end e) \<and>
       (\<forall>r \<in> set rows. senr_id r \<noteq> senr_id e' \<longrightarrow> dates_ordered (senr_start r) (senr_end r)))) \<and>
   (enr_student c \<noteq> None \<and> enr_schedule c \<noteq> None \<and> enr_start c \<noteq> None \<and> enr_end c \<noteq> None \<longrightarrow>
      (\<exists>c' crows'. Enrolment_save c crows = (c', Inr crows') \<and> c' \<in> set crows' \<and>
         enr_start c' = enr_start c \<and> enr_end c' = enr_end c)) \<and>
   (\<forall>c' crows'. Enrolment_save c crows = (c', Inr crows') \<longrightarrow>
      ((\<forall>r \<in> set crows'. dates_ordered (enr_start r) (enr_end r)) \<longleftrightarrow>
       dates_ordered (enr_start c) (enr_end c) \<and>
       (\<forall>r \<in> set crows. enr_id r \<noteq> enr_id c' \<longrightarrow> dates_ordered (enr_start r) (enr_end r))))"
proof (intro conjI impI allI)
  assume "senr_school e \<noteq> None \<and> senr_start e \<noteq> None"
  then obtain e' rows' where s: "students_Enrolment_save e rows = (e', Inr rows')"
    using Model_save_accepted [of "\<lambda>s others. senr_school s \<noteq> None \<and> senr_start s \<noteq> None" e]
    unfolding students_Enrolment_save_def by blast
  with students_Enrolment_save_dates [OF s]
  show "\<exists>e' rows'. students_Enrolment_save e rows = (e', Inr rows') \<and> e' \<in> set rows' \<and>
         senr_start e' = senr_start e \<and> senr_end e' = senr_end e"
    by blast
next
  fix e' rows'
  assume s: "students_Enrolment_save e rows = (e', Inr rows')"
  from students_Enrolment_save_dates [OF s] students_Enrolment_save_rows [OF s]
  show "(\<forall>r \<in> set rows'. dates_ordered (senr_start r) (senr_end r)) \<longleftrightarrow>
       dates_ordered (senr_start e) (senr_end e) \<and>
       (\<forall>r \<in> set rows. senr_id r \<noteq> senr_id e' \<longrightarrow> dates_ordered (senr_start r) (senr_end r))"
    by auto
next
  assume "enr_student c \<noteq> None \<and> enr_schedule c \<noteq> None \<and> enr_start c \<noteq> None \<and> enr_end c \<noteq> None"
  then obtain c' crows' where s: "Enrolment_save c crows = (c', Inr crows')"
    using Model_save_accepted [of "\<lambda>s others. enr_student s \<noteq> None \<and> enr_schedule s \<noteq> None \<and>
                    enr_start s \<noteq> None \<and> enr_end s \<noteq> None" c]
    unfolding Enrolment_save_def by blast
  with Enrolment_save_dates [OF s]
  show "\<exists>c' crows'. Enrolment_save c crows = (c', Inr crows') \<and> c' \<in> set crows' \<and>
         enr_start c' = enr_start c \<and> enr_end c' = enr_end c"
    by blast
next
  fix c' crows'
  assume s: "Enrolment_save c crows = (c', Inr crows')"
  from Enrolment_save_dates [OF s] Enrolment_save_rows [OF s]
  show "(\<forall>r \<in> set crows'. dates_ordered (enr_start r) (enr_end r)) \<longleftrightarrow>
       dates_ordered (enr_start c) (enr_end c) \<and>
       (\<forall>r \<in> set crows. enr_id r \<noteq> enr_id c' \<longrightarrow> dates_ordered (enr_start r) (enr_end r))"
    by auto
qed

theorem enrolment_dates_not_checked_witness:
  "(senr_school \<lparr>senr_id = None, senr_school = Some 1, senr_start = Some 10, senr_end = Some 5\<rparr> \<noteq> None \<and>
    senr_start \<lparr>senr_id = None, senr_school = Some 1, senr_start = Some 10, senr_end = Some 5\<rparr> \<noteq> None) \<and>
   students_Enrolment_save
     \<lparr>senr_id = None, senr_school = Some 1, senr_start = Some 10, senr_end = Some 5\<rparr>
     [\<lparr>senr_id = Some 1, senr_school = Some 1, senr_start = Some 3, senr_end = None\<rparr>] =
     (\<lparr>senr_id = Some 2, senr_school = Some 1, senr_start = Some 10, senr_end = Some 5\<rparr>,
      Inr [\<lparr>senr_id = Some 1, senr_school = Some 1, senr_start = Some 3, senr_end = None\<rparr>,
           \<lparr>senr_id = Some 2, senr_school = Some 1, senr_start = Some 10, senr_end = Some 5\<rparr>]) \<and>
   (dates_ordered (Some 3) None \<and> dates_ordered (Some 5) (Some 10) \<and>
    \<not> dates_ordered (Some 10) (Some 5)) \<and>
   students_Enrolment_save
     \<lparr>senr_id = Some 1, senr_school = Some 1, senr_start = Some 5, senr_end = Some 10\<rparr>
     [\<lparr>senr_id = Some 1, senr_school = Some 1, senr_start = Some 10, senr_end = Some 5\<rparr>] =
     (\<lparr>senr_id = Some 1, senr_school = Some 1, senr_start = Some 5, senr_end = Some 10\<rparr>,
      Inr [\<lparr>senr_id = Some 1, senr_school = Some 1, senr_start = Some 5, senr_end = Some 10\<rparr>]) \<and>
   Enrolment_save
     \<lparr>enr_id = None, enr_student = Some 1, enr_schedule = Some 1,
      enr_start = Some 10, enr_end = Some 5\<rparr> [] =
     (\<lparr>enr_id = Some 1, enr_student = Some 1, enr_schedule = Some 1,
       enr_start = Some 10, enr_end = Some 5\<rparr>,
      Inr [\<lparr>enr_id = Some 1, enr_student = Some 1, enr_schedule = Some 1,
            enr_start = Some 10, enr_end = Some 5\<rparr>]) \<and>
   Enrolment_save
     \<lparr>enr_id = Some 1, enr_student = Some 1, enr_schedule = Some 1,
      enr_start = Some 5, enr_end = Some 10\<rparr>
     [\<lparr>enr_id = Some 1, enr_student = Some 1, enr_schedule = Some 1,
       enr_start = Some 10, enr_end = Some 5\<rparr>] =
     (\<lparr>enr_id = Some 1, enr_student = Some 1, enr_schedule = Some 1,
       enr_start = Some 5, enr_end = Some 10\<rparr>,
      Inr [\<lparr>enr_id = Some 1, enr_student = Some 1, enr_schedule = Some 1,
            enr_start = Some 5, enr_end = Some 10\<rparr>])"
  using enrolment_dates_not_checked
    [of "\<lparr>senr_id = None, senr_school = Some 1, senr_start = Some 10, senr_end = Some 5\<rparr>"
        "[\<lparr>senr_id = Some 1, senr_school = Some 1, senr_start = Some 3, senr_end = None\<rparr>]"
        "\<lparr>enr_id = None, enr_student = Some 1, enr_schedule = Some 1,
          enr_start = Some 10, enr_end = Some 5\<rparr>" "[]"]
    enrolment_dates_not_checked
    [of "\<lparr>senr_id = Some 1, senr_school = Some 1, senr_start = Some 5, senr_end = Some 10\<rparr>"
        "[\<lparr>senr_id = Some 1, senr_school = Some 1, senr_start = Some 10, senr_end = Some 5\<rparr>]"
        "\<lparr>enr_id = Some 1, enr_student = Some 1, enr_schedule = Some 1,
          enr_start = Some 5, enr_end = Some 10\<rparr>"
        "[\<lparr>enr_id = Some 1, enr_student = Some 1, enr_schedule = Some 1,
           enr_start = Some 10, enr_end = Some 5\<rparr>]"]
  by (simp add: students_Enrolment_save_def Enrolment_save_def Model_save_def dates_ordered_def
      fresh_pk_def stored_pks_def map_filter_def Let_def)

subsection \<open>Attendance\<close>

text \<open>
  C10. In every state of the \<^verbatim>\<open>Attendance\<close> table, two new records with the same
  activity and the same student (and any two codes) are both saved: they are stored under
  two different keys and stand side by side in the table.
\<close>

theorem attendance_duplicates_accepted:
  "(let a1 = \<lparr>att_id = None, att_activity = Some act, att_student = Some st, att_code = Some c1\<rparr>;
        a2 = \<lparr>att_id = None, att_activity = Some act, att_student = Some st, att_code = Some c2\<rparr>;
        k1 = fresh_pk att_id rows;
        r1 = a1\<lparr>att_id := Some k1\<rparr>;
        k2 = fresh_pk att_id (rows @ [r1]);
        r2 = a2\<lparr>att_id := Some k2\<rparr>
    in Attendance_save a1 rows = (r1, Inr (rows @ [r1])) \<and>
       Attendance_save a2 (rows @ [r1]) = (r2, Inr (rows @ [r1, r2])) \<and>
       r1 \<noteq> r2 \<and> k1 \<noteq> k2 \<and>
       att_activity r1 = att_activity r2 \<and> att_student r1 = att_student r2)"
proof -
  have "fresh_pk att_id rows \<in> set (stored_pks att_id
     (rows @ [\<lparr>att_id = Some (fresh_pk att_id rows), att_activity = Some act,
               att_student = Some st, att_code = Some c1\<rparr>]))"
    by (simp add: stored_pks_iff)
  then have "fresh_pk att_id rows \<noteq> fresh_pk att_id
     (rows @ [\<lparr>att_id = Some (fresh_pk att_id rows), att_activity = Some act,
               att_student = Some st, att_code = Some c1\<rparr>])"
    using fresh_pk_notin by metis
  then show ?thesis
    by (simp add: Attendance_save_def Model_save_new Let_def)
qed

subsection \<open>The table of students\<close>

lemma Student_inv_filter: "Student_inv rows \<Longrightarrow> Student_inv (filter P rows)"
  by (auto simp: Student_inv_def distinct_map_filter)

lemma Student_inv_save:
  assumes inv: "Student_inv rows" and save: "Student_save self rows = (self', Inr rows')"
  shows "Student_inv rows'"
proof (cases "st_id self")
  case None
  with save have ok: "Student_constraints self rows"
    and rows': "rows' = rows @ [self\<lparr>st_id := Some (fresh_pk st_id rows)\<rparr>]"
    by (auto simp: Student_save_def Model_save_def Let_def split: if_splits)
  have "Some (fresh_pk st_id rows) \<notin> set (map st_id rows)"
    using fresh_pk_notin [of st_id rows] by (auto simp: stored_pks_iff)
  with inv ok show ?thesis
    unfolding rows' Student_inv_def Student_constraints_def by auto
next
  case (Some k)
  show ?thesis
  proof (cases "k \<in> set (stored_pks st_id rows)")
    case False
    with Some save have ok: "Student_constraints self rows" and rows': "rows' = rows @ [self]"
      by (auto simp: Student_save_def Model_save_def split: if_splits)
    from False Some have "st_id self \<notin> set (map st_id rows)"
      by (auto simp: stored_pks_iff)
    with inv ok Some show ?thesis
      unfolding rows' Student_inv_def Student_constraints_def by auto
  next
    case True
    with Some save
    have ok: "Student_constraints self (filter (\<lambda>r. st_id r \<noteq> Some k) rows)"
      and rows': "rows' = map (\<lambda>r. if st_id r = Some k then self else r) rows"
      by (auto simp: Student_save_def Model_save_def split: if_splits)
    from inv have d: "distinct (map st_id rows)" "distinct (map st_person rows)"
      "distinct (map st_ministry_id rows)"
      by (auto simp: Student_inv_def)
    have 1: "distinct (map st_id rows')"
      unfolding rows' using d(1) Some by (simp only: map_pk_replace)
    have 2: "distinct (map st_person rows')"
      unfolding rows' using ok
      by (intro distinct_map_replace [OF d(1) d(2)]) (auto simp: Student_constraints_def)
    have 3: "distinct (map st_ministry_id rows')"
      unfolding rows' using ok
      by (intro distinct_map_replace [OF d(1) d(3)]) (auto simp: Student_constraints_def)
    have 4: "\<forall>s \<in> set rows'. st_id s \<noteq> None \<and> st_person s \<noteq> None \<and> st_ministry_id s \<noteq> None"
      unfolding rows' using inv ok Some
      by (auto simp: Student_inv_def Student_constraints_def)
    from 1 2 3 4 show ?thesis by (simp add: Student_inv_def)
  qed
qed

lemma Student_inv_step: "Student_inv rows \<Longrightarrow> Student_inv (Student_step op rows)"
proof (cases op)
  case (Op_save s)
  assume inv: "Student_inv rows"
  show ?thesis
  proof (cases "Student_save s rows")
    case (Pair s' res)
    then show ?thesis
      using inv Student_inv_save [of rows s s'] Op_save
      by (cases res) auto
  qed
qed (auto simp: Student_inv_filter)

lemma Student_inv_fold: "Student_inv rows \<Longrightarrow> Student_inv (fold Student_step ops rows)"
  by (induction ops arbitrary: rows) (auto simp: Student_inv_step)

lemma Student_inv_table: "Student_inv (Student_table ops)"
  unfolding Student_table_def by (rule Student_inv_fold) (simp add: Student_inv_def)

lemma Student_save_duplicate:
  assumes "s \<in> set rows" and "st_id new \<noteq> st_id s"
    and "st_ministry_id new = st_ministry_id s \<or> st_person new = st_person s"
  shows "Student_save new rows = (new, Inl IntegrityError)"
proof -
  have "\<not> Student_constraints new rows"
    using assms by (auto simp: Student_constraints_def)
  moreover have "\<not> Student_constraints new (filter (\<lambda>r. st_id r \<noteq> st_id new) rows)"
    using assms by (auto simp: Student_constraints_def image_iff)
  ultimately show ?thesis
    by (auto simp: Student_save_def Model_save_def split: option.splits)
qed

text \<open>
  C4. In every state of the \<^verbatim>\<open>Student\<close> table reached from the empty table by saves
  and deletes, the stored \<^verbatim>\<open>ministry_id\<close> values are pairwise distinct, and the save of
  a \<^verbatim>\<open>Student\<close> whose \<^verbatim>\<open>ministry_id\<close> is that of a stored row other than its own
  (a new student in particular) is rejected with \<^verbatim>\<open>IntegrityError\<close>.
\<close>

theorem ministry_id_unique:
  "distinct (map st_ministry_id (Student_table ops)) \<and>
   (s \<in> set (Student_table ops) \<and> st_ministry_id new = st_ministry_id s \<and> st_id new \<noteq> st_id s \<longrightarrow>
      Student_save new (Student_table ops) = (new, Inl IntegrityError))"
  using Student_inv_table [of ops] Student_save_duplicate [of s "Student_table ops" new]
  by (auto simp: Student_inv_def)

theorem ministry_id_unique_witness:
  "distinct (map st_ministry_id
     (Student_table [Op_save (Student_new 1 100 9 9), Op_save (Student_new 2 100 9 9),
                     Op_save (Student_new 2 200 9 9)])) \<and>
   ((Student_new 1 100 9 9)\<lparr>st_id := Some 1\<rparr> \<in> set (Student_table [Op_save (Student_new 1 100 9 9)]) \<and>
    st_ministry_id (Student_new 2 100 9 9) = st_ministry_id ((Student_new 1 100 9 9)\<lparr>st_id := Some 1\<rparr>) \<and>
    st_id (Student_new 2 100 9 9) \<noteq> st_id ((Student_new 1 100 9 9)\<lparr>st_id := Some 1\<rparr>)) \<and>
   Student_save (Student_new 2 100 9 9) (Student_table [Op_save (Student_new 1 100 9 9)]) =
     (Student_new 2 100 9 9, Inl IntegrityError) \<and>
   Student_table [Op_save (Student_new 1 100 9 9), Op_save (Student_new 2 100 9 9),
                  Op_save (Student_new 2 200 9 9)] =
     [(Student_new 1 100 9 9)\<lparr>st_id := Some 1\<rparr>, (Student_new 2 200 9 9)\<lparr>st_id := Some 2\<rparr>]"
  using ministry_id_unique
    [of "[Op_save (Student_new 1 100 9 9), Op_save (Student_new 2 100 9 9),
          Op_save (Student_new 2 200 9 9)]"]
    ministry_id_unique
    [of "[Op_save (Student_new 1 100 9 9)]" "(Student_new 1 100 9 9)\<lparr>st_id := Some 1\<rparr>"
        "Student_new 2 100 9 9"]
  by (simp add: Student_table_def Student_save_def Model_save_def Student_constraints_def
      Student_new_def fresh_pk_def stored_pks_def map_filter_def Let_def)

text \<open>
  C7. In every reachable state of the \<^verbatim>\<open>Student\<close> table each row names one person
  (the column is never empty), no two rows name the same person, and a save without a
  person or with the person of another stored row is rejected.
\<close>

theorem student_person_unique:
  "(s \<in> set (Student_table ops) \<longrightarrow> (\<exists>p. st_person s = Some p)) \<and>
   distinct (map st_person (Student_table ops)) \<and>
   (s \<in> set (Student_table ops) \<and> t \<in> set (Student_table ops) \<and> st_person s = st_person t
      \<longrightarrow> s = t) \<and>
   (st_person new = None \<longrightarrow> Student_save new (Student_table ops) = (new, Inl IntegrityError)) \<and>
   (s \<in> set (Student_table ops) \<and> st_person new = st_person s \<and> st_id new \<noteq> st_id s \<longrightarrow>
      Student_save new (Student_table ops) = (new, Inl IntegrityError))"
proof -
  have inv: "Student_inv (Student_table ops)" by (rule Student_inv_table)
  then have d: "distinct (map st_person (Student_table ops))" by (simp add: Student_inv_def)
  have "st_person new = None \<Longrightarrow> Student_save new (Student_table ops) = (new, Inl IntegrityError)"
    by (auto simp: Student_save_def Model_save_def Student_constraints_def split: option.splits)
  moreover have "s \<in> set (Student_table ops) \<Longrightarrow> t \<in> set (Student_table ops) \<Longrightarrow>
      st_person s = st_person t \<Longrightarrow> s = t"
    using d by (auto simp: distinct_map inj_on_def)
  ultimately show ?thesis
    using inv d Student_save_duplicate [of s "Student_table ops" new]
    by (auto simp: Student_inv_def)
qed

theorem student_person_unique_witness:
  "((Student_new 1 100 9 9)\<lparr>st_id := Some 1\<rparr> \<in> set (Student_table [Op_save (Student_new 1 100 9 9)]) \<and>
    st_person ((Student_new 1 100 9 9)\<lparr>st_id := Some 1\<rparr>) = Some 1) \<and>
   (st_person (Student_new 1 200 9 9) = st_person ((Student_new 1 100 9 9)\<lparr>st_id := Some 1\<rparr>) \<and>
    st_id (Student_new 1 200 9 9) \<noteq> st_id ((Student_new 1 100 9 9)\<lparr>st_id := Some 1\<rparr>)) \<and>
   Student_save (Student_new 1 200 9 9) (Student_table [Op_save (Student_new 1 100 9 9)]) =
     (Student_new 1 200 9 9, Inl IntegrityError) \<and>
   st_person ((Student_new 1 200 9 9)\<lparr>st_person := None\<rparr>) = None \<and>
   Student_save ((Student_new 1 200 9 9)\<lparr>st_person := None\<rparr>) (Student_table []) =
     ((Student_new 1 200 9 9)\<lparr>st_person := None\<rparr>, Inl IntegrityError) \<and>
   Student_table [Op_save (Student_new 1 100 9 9), Op_save (Student_new 1 200 9 9),
                  Op_save (Student_new 2 200 9 9), Op_delete_referenced FK_person 1] =
     [(Student_new 2 200 9 9)\<lparr>st_id := Some 2\<rparr>]"
  using student_person_unique
    [of "(Student_new 1 100 9 9)\<lparr>st_id := Some 1\<rparr>" "[Op_save (Student_new 1 100 9 9)]"
        "(Student_new 1 100 9 9)\<lparr>st_id := Some 1\<rparr>" "Student_new 1 200 9 9"]
    student_person_unique
    [of _ "[]" _ "(Student_new 1 200 9 9)\<lparr>st_person := None\<rparr>"]
  by (simp add: Student_table_def Student_save_def Model_save_def Student_constraints_def
      Student_new_def fresh_pk_def stored_pks_def map_filter_def Let_def)

subsection \<open>The tree of pages\<close>

lemma find_page_Some:
  "find_page k rows = Some r \<Longrightarrow> r \<in> set rows \<and> page_id r = Some k"
  unfolding find_page_def by (induction rows) (auto split: if_splits)

lemma find_page_None: "find_page k rows = None \<longleftrightarrow> k \<notin> set (stored_pks page_id rows)"
  unfolding find_page_def by (auto simp: find_None_iff stored_pks_iff)

lemma find_page_distinct:
  assumes "distinct (map page_id rows)" and "r \<in> set rows" and "page_id r = Some k"
  shows "find_page k rows = Some r"
  using assms unfolding find_page_def
  by (induction rows) (auto simp: image_iff)

lemma parent_edgesI:
  "r \<in> set rows \<Longrightarrow> page_id r = Some k \<Longrightarrow> page_parent r = Some p \<Longrightarrow> (k, p) \<in> parent_edges rows"
  by (auto simp: parent_edges_def)

lemma ancestors_sound:
  "a \<in> set (ancestors n rows (Some p)) \<Longrightarrow> (p, a) \<in> (parent_edges rows)\<^sup>*"
proof (induction n arbitrary: p)
  case 0
  then show ?case by simp
next
  case (Suc n)
  show ?case
  proof (cases "a = p")
    case True
    then show ?thesis by simp
  next
    case False
    with Suc.prems obtain r where r: "find_page p rows = Some r"
      and a: "a \<in> set (ancestors n rows (page_parent r))"
      by (cases "find_page p rows") auto
    from a obtain q where q: "page_parent r = Some q"
      by (cases "page_parent r"; cases n) auto
    from find_page_Some [OF r] q have "(p, q) \<in> parent_edges rows"
      by (auto intro: parent_edgesI)
    moreover from a q Suc.IH have "(q, a) \<in> (parent_edges rows)\<^sup>*" by simp
    ultimately show ?thesis by (rule converse_rtrancl_into_rtrancl)
  qed
qed

lemma ancestors_reach:
  assumes "distinct (map page_id rows)" and "(p, a) \<in> (parent_edges rows)\<^sup>*"
  shows "\<exists>n. a \<in> set (ancestors n rows (Some p))"
  using assms(2)
proof (induction rule: converse_rtrancl_induct)
  case base
  have "a \<in> set (ancestors (Suc 0) rows (Some a))" by simp
  then show ?case by blast
next
  case (step p q)
  then obtain n where n: "a \<in> set (ancestors n rows (Some q))" by blast
  from step.hyps(1) obtain r where "r \<in> set rows" "page_id r = Some p" "page_parent r = Some q"
    by (auto simp: parent_edges_def)
  with assms(1) have "find_page p rows = Some r" "page_parent r = Some q"
    by (auto intro: find_page_distinct)
  with n have "a \<in> set (ancestors (Suc n) rows (Some p))" by simp
  then show ?case by blast
qed

lemma ancestors_take: "ancestors n rows x = take n (ancestors (n + m) rows x)"
proof (induction n arbitrary: x)
  case 0
  then show ?case by simp
next
  case (Suc n)
  show ?case
  proof (cases x)
    case None
    then show ?thesis by simp
  next
    case (Some k)
    then show ?thesis using Suc.IH by (simp split: option.splits)
  qed
qed

lemma ancestors_distinct:
  assumes "acyclic (parent_edges rows)"
  shows "distinct (ancestors n rows x)"
proof (induction n arbitrary: x)
  case 0
  then show ?case by simp
next
  case (Suc n)
  show ?case
  proof (cases x)
    case None
    then show ?thesis by simp
  next
    case (Some k)
    show ?thesis
    proof (cases "find_page k rows")
      case None
      with Some show ?thesis by simp
    next
      case (Some r)
      have "k \<notin> set (ancestors n rows (page_parent r))"
      proof
        assume k: "k \<in> set (ancestors n rows (page_parent r))"
        then obtain q where q: "page_parent r = Some q"
          by (cases "page_parent r"; cases n) auto
        from find_page_Some [OF Some] q have "(k, q) \<in> parent_edges rows"
          by (auto intro: parent_edgesI)
        moreover from k q have "(q, k) \<in> (parent_edges rows)\<^sup>*"
          by (simp add: ancestors_sound)
        ultimately have "(k, k) \<in> (parent_edges rows)\<^sup>+" by (rule rtrancl_into_trancl2)
        with assms show False by (simp add: acyclic_def)
      qed
      with Some \<open>x = Some k\<close> Suc.IH show ?thesis by simp
    qed
  qed
qed

lemma ancestors_stored:
  assumes "\<forall>r \<in> set rows. \<forall>p. page_parent r = Some p \<longrightarrow> p \<in> set (stored_pks page_id rows)"
    and "p \<in> set (stored_pks page_id rows)"
  shows "set (ancestors n rows (Some p)) \<subseteq> set (stored_pks page_id rows)"
  using assms(2)
proof (induction n arbitrary: p)
  case 0
  then show ?case by simp
next
  case (Suc n)
  show ?case
  proof (cases "find_page p rows")
    case None
    with Suc.prems show ?thesis by simp
  next
    case (Some r)
    show ?thesis
    proof (cases "page_parent r")
      case None
      with Some Suc.prems show ?thesis by (cases n) auto
    next
      case (Some q)
      with find_page_Some [OF \<open>find_page p rows = Some r\<close>] assms(1)
      have "q \<in> set (stored_pks page_id rows)" by blast
      from Suc.IH [OF this] Some \<open>find_page p rows = Some r\<close> Suc.prems
      show ?thesis by simp
    qed
  qed
qed

lemma stored_pks_length: "length (stored_pks pk_of rows) \<le> length rows"
  unfolding stored_pks_def map_filter_def
  by (simp add: le_trans [OF _ length_filter_le])

lemma ancestors_length:
  assumes "Page_inv rows" and "p \<in> set (stored_pks page_id rows)"
  shows "length (ancestors n rows (Some p)) \<le> length rows"
proof -
  from assms have "distinct (ancestors n rows (Some p))"
    by (simp add: Page_inv_def ancestors_distinct)
  then have "length (ancestors n rows (Some p)) = card (set (ancestors n rows (Some p)))"
    by (simp add: distinct_card)
  also have "\<dots> \<le> card (set (stored_pks page_id rows))"
    using assms by (intro card_mono ancestors_stored) (auto simp: Page_inv_def)
  also have "\<dots> \<le> length (stored_pks page_id rows)" by (rule card_length)
  also have "\<dots> \<le> length rows" by (rule stored_pks_length)
  finally show ?thesis .
qed

lemma ancestors_enough:
  assumes "Page_inv rows" and "p \<in> set (stored_pks page_id rows)"
  shows "set (ancestors n rows (Some p)) \<subseteq> set (ancestors (length rows) rows (Some p))"
proof (cases "n \<le> length rows")
  case True
  then obtain m where "length rows = n + m" using le_Suc_ex by blast
  then have "ancestors n rows (Some p) = take n (ancestors (length rows) rows (Some p))"
    using ancestors_take [of n rows "Some p" m] by simp
  then show ?thesis by (simp add: set_take_subset)
next
  case False
  then obtain m where m: "n = length rows + m" using le_Suc_ex [of "length rows" n] by auto
  have "ancestors (length rows) rows (Some p) = take (length rows) (ancestors n rows (Some p))"
    unfolding m by (rule ancestors_take)
  also have "\<dots> = ancestors n rows (Some p)"
    using ancestors_length [OF assms, of n] by simp
  finally show ?thesis by simp
qed

lemma ancestors_complete:
  assumes "Page_inv rows" and "p \<in> set (stored_pks page_id rows)"
    and "(p, a) \<in> (parent_edges rows)\<^sup>*"
  shows "a \<in> set (ancestors (length rows) rows (Some p))"
proof -
  from assms(1) have "distinct (map page_id rows)" by (simp add: Page_inv_def)
  from ancestors_reach [OF this assms(3)] obtain n where "a \<in> set (ancestors n rows (Some p))"
    by blast
  with ancestors_enough [OF assms(1,2)] show ?thesis by blast
qed

lemma stored_pks_append:
  "set (stored_pks pk_of (rows @ [r])) = set (stored_pks pk_of rows) \<union> (case pk_of r of None \<Rightarrow> {} | Some k \<Rightarrow> {k})"
  by (auto simp: stored_pks_iff split: option.splits)

lemma parent_edges_range:
  assumes "\<forall>r \<in> set rows. \<forall>p. page_parent r = Some p \<longrightarrow> p \<in> set (stored_pks page_id rows)"
    and "(a, b) \<in> (parent_edges rows)\<^sup>*" and "a \<noteq> b"
  shows "b \<in> set (stored_pks page_id rows)"
proof -
  from assms(2,3) obtain c where "(c, b) \<in> parent_edges rows"
    by (auto elim: rtranclE)
  with assms(1) show ?thesis by (auto simp: parent_edges_def)
qed

lemma Page_inv_insert:
  assumes inv: "Page_inv rows" and key: "page_id new = Some c" "c \<notin> set (stored_pks page_id rows)"
    and parent: "\<forall>p. page_parent new = Some p \<longrightarrow> p \<in> set (stored_pks page_id rows)"
  shows "Page_inv (rows @ [new])"
proof -
  let ?E = "parent_edges rows"
  have edges: "parent_edges (rows @ [new]) =
      (case page_parent new of None \<Rightarrow> ?E | Some p \<Rightarrow> insert (c, p) ?E)"
    using key(1) by (auto simp: parent_edges_def split: option.splits)
  have acyc: "acyclic (parent_edges (rows @ [new]))"
  proof (cases "page_parent new")
    case None
    with edges inv show ?thesis by (simp add: Page_inv_def)
  next
    case (Some p)
    with parent have p: "p \<in> set (stored_pks page_id rows)" by simp
    have "(p, c) \<notin> ?E\<^sup>*"
    proof
      assume "(p, c) \<in> ?E\<^sup>*"
      moreover from p key(2) have "p \<noteq> c" by auto
      ultimately have "c \<in> set (stored_pks page_id rows)"
        using inv by (intro parent_edges_range [of rows p c]) (auto simp: Page_inv_def)
      with key(2) show False by simp
    qed
    with Some edges inv show ?thesis by (simp add: Page_inv_def)
  qed
  have ids: "distinct (map page_id (rows @ [new]))"
    using inv key by (auto simp: Page_inv_def stored_pks_iff)
  have "\<forall>r \<in> set (rows @ [new]). \<forall>p. page_parent r = Some p \<longrightarrow>
      p \<in> set (stored_pks page_id (rows @ [new]))"
    using inv parent by (auto simp: Page_inv_def stored_pks_append)
  with acyc ids inv key(1) show ?thesis by (auto simp: Page_inv_def)
qed

lemma stored_pks_replace:
  assumes "pk_of self = Some k"
  shows "stored_pks pk_of (map (\<lambda>r. if pk_of r = Some k then self else r) rows) = stored_pks pk_of rows"
  using assms by (induction rows) (auto simp: stored_pks_def map_filter_def)

lemma Page_inv_update:
  assumes inv: "Page_inv rows" and key: "page_id self = Some k" "k \<in> set (stored_pks page_id rows)"
    and parent: "\<forall>p. page_parent self = Some p \<longrightarrow>
        p \<in> set (stored_pks page_id rows) \<and> k \<notin> set (ancestors (length rows) rows (Some p))"
  shows "Page_inv (map (\<lambda>r. if page_id r = Some k then self else r) rows)"
proof -
  let ?rows' = "map (\<lambda>r. if page_id r = Some k then self else r) rows"
  let ?E = "parent_edges rows"
  let ?F = "{(a, b). (a, b) \<in> ?E \<and> a \<noteq> k}"
  have F: "?F \<subseteq> ?E" by auto
  then have acF: "acyclic ?F" using inv by (auto simp: Page_inv_def intro: acyclic_subset)
  have edges: "parent_edges ?rows' \<subseteq>
      (case page_parent self of None \<Rightarrow> ?F | Some p \<Rightarrow> insert (k, p) ?F)"
    using key(1) by (auto simp: parent_edges_def split: option.splits if_splits)
  have "acyclic (case page_parent self of None \<Rightarrow> ?F | Some p \<Rightarrow> insert (k, p) ?F)"
  proof (cases "page_parent self")
    case None
    with acF show ?thesis by simp
  next
    case (Some p)
    with parent have p: "p \<in> set (stored_pks page_id rows)"
      and k: "k \<notin> set (ancestors (length rows) rows (Some p))" by auto
    have "(p, k) \<notin> ?F\<^sup>*"
    proof
      assume "(p, k) \<in> ?F\<^sup>*"
      with F have "(p, k) \<in> ?E\<^sup>*" using rtrancl_mono by blast
      from ancestors_complete [OF inv p this] k show False by simp
    qed
    with Some acF show ?thesis by simp
  qed
  then have acyc: "acyclic (parent_edges ?rows')" using edges by (rule acyclic_subset)
  have ids: "map page_id ?rows' = map page_id rows"
    using key(1) by (rule map_pk_replace)
  have pks: "stored_pks page_id ?rows' = stored_pks page_id rows"
    using key(1) by (rule stored_pks_replace)
  have "\<forall>r \<in> set ?rows'. \<forall>p. page_parent r = Some p \<longrightarrow> p \<in> set (stored_pks page_id ?rows')"
    unfolding pks using inv parent by (auto simp: Page_inv_def)
  moreover have "\<forall>r \<in> set ?rows'. page_id r \<noteq> None"
    using inv key(1) by (auto simp: Page_inv_def)
  moreover have "distinct (map page_id ?rows')"
    unfolding ids using inv by (simp add: Page_inv_def)
  ultimately show ?thesis using acyc unfolding Page_inv_def by blast
qed

lemma Page_inv_cascade:
  assumes inv: "Page_inv rows"
  shows "Page_inv (Page_cascade roots rows)"
proof -
  let ?rows' = "Page_cascade roots rows"
  have sub: "set ?rows' \<subseteq> set rows" by (auto simp: Page_cascade_def)
  then have "parent_edges ?rows' \<subseteq> parent_edges rows" by (auto simp: parent_edges_def)
  with inv have acyc: "acyclic (parent_edges ?rows')"
    by (auto simp: Page_inv_def intro: acyclic_subset)
  have ids: "distinct (map page_id ?rows')"
    using inv by (simp add: Page_inv_def Page_cascade_def distinct_map_filter)
  have parents: "\<forall>r \<in> set ?rows'. \<forall>p. page_parent r = Some p \<longrightarrow> p \<in> set (stored_pks page_id ?rows')"
  proof (intro ballI allI impI)
    fix r p
    assume r: "r \<in> set ?rows'" and p: "page_parent r = Some p"
    from r have r_in: "r \<in> set rows" and r_safe: "\<not> doomed roots rows r"
      by (auto simp: Page_cascade_def)
    from inv r_in p have p_in: "p \<in> set (stored_pks page_id rows)" by (auto simp: Page_inv_def)
    then obtain rp where rp: "rp \<in> set rows" "page_id rp = Some p" by (auto simp: stored_pks_iff)
    from inv rp have f: "find_page p rows = Some rp"
      by (auto simp: Page_inv_def intro: find_page_distinct)
    have "\<not> doomed roots rows rp"
    proof
      assume "doomed roots rows rp"
      then have "\<exists>a \<in> set roots. a \<in> set (ancestors (Suc (length rows)) rows (Some p))"
        using rp(2) f by (auto simp: doomed_def)
      then have "\<exists>a \<in> set roots. a \<in> set (ancestors (length rows) rows (Some p))"
        using ancestors_enough [OF inv p_in, of "Suc (length rows)"] by blast
      with p have "doomed roots rows r" by (auto simp: doomed_def)
      with r_safe show False by simp
    qed
    with rp have "rp \<in> set ?rows'" by (simp add: Page_cascade_def)
    with rp(2) show "p \<in> set (stored_pks page_id ?rows')" by (auto simp: stored_pks_iff)
  qed
  have "\<forall>r \<in> set ?rows'. page_id r \<noteq> None"
    using inv sub by (auto simp: Page_inv_def)
  with acyc ids parents show ?thesis unfolding Page_inv_def by blast
qed

lemma Page_inv_save:
  assumes inv: "Page_inv rows" and save: "Page_save self rows = (self', Inr rows')"
  shows "Page_inv rows'"
proof -
  from save have chk: "mptt_check self rows = None"
    and ms: "Model_save page_id (\<lambda>k r. r\<lparr>page_id := Some k\<rparr>) (\<lambda>s others. page_course s \<noteq> None)
        self rows = (self', Inr rows')"
    by (auto simp: Page_save_def split: option.splits)
  from chk have parent: "\<forall>p. page_parent self = Some p \<longrightarrow> p \<in> set (stored_pks page_id rows)"
    by (auto simp: mptt_check_def split: option.splits if_splits)
  show ?thesis
  proof (cases "page_id self")
    case None
    with ms have rows': "rows' = rows @ [self\<lparr>page_id := Some (fresh_pk page_id rows)\<rparr>]"
      by (auto simp: Model_save_def Let_def split: if_splits)
    show ?thesis unfolding rows'
      using parent by (intro Page_inv_insert [OF inv, of _ "fresh_pk page_id rows"])
        (auto simp: fresh_pk_notin)
  next
    case (Some k)
    show ?thesis
    proof (cases "k \<in> set (stored_pks page_id rows)")
      case False
      with Some ms have rows': "rows' = rows @ [self]"
        by (auto simp: Model_save_def split: if_splits)
      show ?thesis unfolding rows'
        using parent Some False by (intro Page_inv_insert [OF inv, of _ k]) auto
    next
      case True
      with Some ms have rows': "rows' = map (\<lambda>r. if page_id r = Some k then self else r) rows"
        by (auto simp: Model_save_def split: if_splits)
      from chk Some have "\<forall>p. page_parent self = Some p \<longrightarrow>
        p \<in> set (stored_pks page_id rows) \<and> k \<notin> set (ancestors (length rows) rows (Some p))"
        by (auto simp: mptt_check_def split: option.splits if_splits)
      then show ?thesis unfolding rows'
        using Some True by (intro Page_inv_update [OF inv]) auto
    qed
  qed
qed

lemma Page_inv_step: "Page_inv rows \<Longrightarrow> Page_inv (Page_step op rows)"
proof (cases op)
  case (Page_op_save s)
  assume inv: "Page_inv rows"
  show ?thesis
  proof (cases "Page_save s rows")
    case (Pair s' res)
    then show ?thesis
      using inv Page_inv_save [of rows s s'] Page_op_save
      by (cases res) auto
  qed
qed (auto simp: Page_inv_cascade)

lemma Page_inv_fold: "Page_inv rows \<Longrightarrow> Page_inv (fold Page_step ops rows)"
  by (induction ops arbitrary: rows) (auto simp: Page_inv_step)

lemma Page_inv_table: "Page_inv (Page_table ops)"
  unfolding Page_table_def
  by (rule Page_inv_fold) (simp add: Page_inv_def parent_edges_def acyclic_def)

lemma Page_inv_no_cycle:
  assumes "Page_inv rows" and "r \<in> set rows" and "page_id r = Some k"
  shows "k \<notin> set (ancestors n rows (page_parent r))"
proof
  assume k: "k \<in> set (ancestors n rows (page_parent r))"
  then obtain q where q: "page_parent r = Some q"
    by (cases "page_parent r"; cases n) auto
  with assms(2,3) have "(k, q) \<in> parent_edges rows" by (auto intro: parent_edgesI)
  moreover from k q have "(q, k) \<in> (parent_edges rows)\<^sup>*" by (simp add: ancestors_sound)
  ultimately have "(k, k) \<in> (parent_edges rows)\<^sup>+" by (rule rtrancl_into_trancl2)
  with assms(1) show False by (simp add: Page_inv_def acyclic_def)
qed

text \<open>
  C5. In every state of the table of pages reached from the empty table by saves and
  deletes (of a page, of courses with their pages, or of a content type with the pages
  that name it), no page is among its own ancestors:
  following the parent pointers from a page, for any number of steps, never comes back to
  that page, and the parent pointers form no cycle. A save that would put a stored page
  under itself or under one of its descendants is rejected.
\<close>

theorem page_never_own_ancestor:
  "(r \<in> set (Page_table ops) \<and> page_id r = Some k \<longrightarrow>
      k \<notin> set (ancestors n (Page_table ops) (page_parent r))) \<and>
   acyclic (parent_edges (Page_table ops)) \<and>
   (page_id self = Some c \<and> page_parent self = Some p \<and>
    p \<in> set (stored_pks page_id (Page_table ops)) \<and>
    (c = p \<or> c \<in> set (ancestors (length (Page_table ops)) (Page_table ops) (Some p))) \<longrightarrow>
      Page_save self (Page_table ops) = (self, Inl InvalidMove))"
proof -
  have inv: "Page_inv (Page_table ops)" by (rule Page_inv_table)
  then have "acyclic (parent_edges (Page_table ops))" by (simp add: Page_inv_def)
  moreover have "r \<in> set (Page_table ops) \<Longrightarrow> page_id r = Some k \<Longrightarrow>
      k \<notin> set (ancestors n (Page_table ops) (page_parent r))"
    using inv by (rule Page_inv_no_cycle)
  moreover have "page_id self = Some c \<Longrightarrow> page_parent self = Some p \<Longrightarrow>
    p \<in> set (stored_pks page_id (Page_table ops)) \<Longrightarrow>
    c = p \<or> c \<in> set (ancestors (length (Page_table ops)) (Page_table ops) (Some p)) \<Longrightarrow>
      Page_save self (Page_table ops) = (self, Inl InvalidMove)"
    by (simp add: Page_save_def mptt_check_def)
  ultimately show ?thesis by blast
qed

theorem page_never_own_ancestor_witness:
  "Page_table [Page_op_save (Page_new ''Unit 1'' ''text'' 1 None),
               Page_op_save (Page_new ''Lesson 1'' ''text'' 1 (Some 1)),
               Page_op_save ((Page_new ''Unit 1'' ''text'' 1 (Some 2))\<lparr>page_id := Some 1\<rparr>)] =
     [(Page_new ''Unit 1'' ''text'' 1 None)\<lparr>page_id := Some 1\<rparr>,
      (Page_new ''Lesson 1'' ''text'' 1 (Some 1))\<lparr>page_id := Some 2\<rparr>] \<and>
   ((Page_new ''Lesson 1'' ''text'' 1 (Some 1))\<lparr>page_id := Some 2\<rparr> \<in>
      set (Page_table [Page_op_save (Page_new ''Unit 1'' ''text'' 1 None),
                       Page_op_save (Page_new ''Lesson 1'' ''text'' 1 (Some 1))]) \<and>
    page_id ((Page_new ''Lesson 1'' ''text'' 1 (Some 1))\<lparr>page_id := Some 2\<rparr>) = Some 2) \<and>
   2 \<notin> set (ancestors 3
     (Page_table [Page_op_save (Page_new ''Unit 1'' ''text'' 1 None),
                  Page_op_save (Page_new ''Lesson 1'' ''text'' 1 (Some 1))])
     (page_parent ((Page_new ''Lesson 1'' ''text'' 1 (Some 1))\<lparr>page_id := Some 2\<rparr>))) \<and>
   (page_id ((Page_new ''Unit 1'' ''text'' 1 (Some 2))\<lparr>page_id := Some 1\<rparr>) = Some 1 \<and>
    page_parent ((Page_new ''Unit 1'' ''text'' 1 (Some 2))\<lparr>page_id := Some 1\<rparr>) = Some 2 \<and>
    2 \<in> set (stored_pks page_id
      (Page_table [Page_op_save (Page_new ''Unit 1'' ''text'' 1 None),
                   Page_op_save (Page_new ''Lesson 1'' ''text'' 1 (Some 1))])) \<and>
    1 \<in> set (ancestors 2
      (Page_table [Page_op_save (Page_new ''Unit 1'' ''text'' 1 None),
                   Page_op_save (Page_new ''Lesson 1'' ''text'' 1 (Some 1))]) (Some 2))) \<and>
   Page_save ((Page_new ''Unit 1'' ''text'' 1 (Some 2))\<lparr>page_id := Some 1\<rparr>)
     (Page_table [Page_op_save (Page_new ''Unit 1'' ''text'' 1 None),
                  Page_op_save (Page_new ''Lesson 1'' ''text'' 1 (Some 1))]) =
     ((Page_new ''Unit 1'' ''text'' 1 (Some 2))\<lparr>page_id := Some 1\<rparr>, Inl InvalidMove)"
  using page_never_own_ancestor
    [of "(Page_new ''Lesson 1'' ''text'' 1 (Some 1))\<lparr>page_id := Some 2\<rparr>"
        "[Page_op_save (Page_new ''Unit 1'' ''text'' 1 None),
          Page_op_save (Page_new ''Lesson 1'' ''text'' 1 (Some 1))]"
        2 3 "(Page_new ''Unit 1'' ''text'' 1 (Some 2))\<lparr>page_id := Some 1\<rparr>" 1 2]
  by (simp add: Page_table_def Page_save_def mptt_check_def Model_save_def Page_new_def
      find_page_def fresh_pk_def stored_pks_def map_filter_def Let_def eval_nat_numeral)

subsection \<open>Deleting the target of a polymorphic reference\<close>

lemma Page_cascade_subset: "set (Page_cascade roots rows) \<subseteq> set rows"
  by (auto simp: Page_cascade_def)

lemma Page_cascade_iff:
  "p \<in> set (Page_cascade roots rows) \<longleftrightarrow> p \<in> set rows \<and> \<not> doomed roots rows p"
  by (auto simp: Page_cascade_def)

lemma Page_cascade_none: "Page_cascade [] rows = rows"
  by (simp add: Page_cascade_def doomed_def)

lemma delete_courses_tables:
  "db_assessments (delete_courses gone d) = db_assessments d"
  "db_pages (delete_courses gone d) = Page_cascade (pages_of_courses gone (db_pages d)) (db_pages d)"
  by (simp_all add: delete_courses_def)

lemma pages_of_no_courses: "pages_of_courses [] rows = []"
  by (simp add: pages_of_courses_def stored_pks_def map_filter_def)

lemma Model_delete_pages:
  "db_pages (Model_delete m x d) = Page_cascade (page_roots m x d) (db_pages d)"
  by (cases m)
    (simp_all add: page_roots_def delete_courses_tables pages_of_no_courses Page_cascade_none)

lemma Model_delete_assessments:
  "db_assessments (Model_delete m x d) =
     filter (\<lambda>a. \<not> (m = M_Assessment \<and> asm_id a = Some x) \<and>
                 \<not> (m = M_ContentType \<and> asm_content_type a = Some x) \<and>
                 \<not> (m = M_Activity \<and>
                    refers_to (asm_content_type a) (asm_object_id a) M_Activity x (db_content_types d)))
       (db_assessments d)"
  by (cases m) (simp_all add: delete_courses_tables)

lemma page_roots_none:
  assumes "m \<notin> {M_SubjectGroup, M_Subject, M_InstructionalYearLevel, M_Course, M_Page, M_ContentType}"
  shows "page_roots m x d = []"
  using assms by (cases m) (simp_all add: page_roots_def pages_of_no_courses)

text \<open>
  C6, as stated, fails. \<^verbatim>\<open>Activity\<close> declares the generic relation
  \<^verbatim>\<open>assessments\<close>, so deleting activity 1 deletes the assessment that refers to it; and
  a page that refers to its own course is deleted with the course, through the foreign key
  \<^verbatim>\<open>course\<close>.
\<close>

theorem activity_delete_takes_assessments:
  "refers_to (Some 7) (Some 1) M_Activity 1
     [\<lparr>ct_id = Some 7, ct_name = ''activity'', ct_app_label = ''courses'',
       ct_model = ''activity''\<rparr>] \<and>
   db_assessments
     (Model_delete M_Activity 1
        \<lparr>db_content_types =
           [\<lparr>ct_id = Some 7, ct_name = ''activity'', ct_app_label = ''courses'',
             ct_model = ''activity''\<rparr>],
         db_subject_groups = [], db_subjects = [], db_instructional_year_levels = [],
         db_courses = [], db_schedules = [], db_pages = [],
         db_assessments =
           [\<lparr>asm_id = Some 1, asm_name = Some ''Quiz'', asm_content_type = Some 7,
             asm_object_id = Some 1\<rparr>],
         db_activities =
           [\<lparr>act_id = Some 1, act_schedules = [], act_subject = ''Lab'',
             act_track_attendance = True, act_start = Some 10, act_end = Some 11,
             act_created = Some 1, act_last_modified = Some 1\<rparr>]\<rparr>) = [] \<and>
   refers_to (Some 5) (Some 1) M_Course 1
     [\<lparr>ct_id = Some 5, ct_name = ''course'', ct_app_label = ''courses'',
       ct_model = ''course''\<rparr>] \<and>
   db_pages
     (Model_delete M_Course 1
        \<lparr>db_content_types =
           [\<lparr>ct_id = Some 5, ct_name = ''course'', ct_app_label = ''courses'',
             ct_model = ''course''\<rparr>],
         db_subject_groups = [], db_subjects = [], db_instructional_year_levels = [],
         db_courses =
           [\<lparr>course_id = Some 1, course_subject = None,
             course_instructional_year_level = None, course_name = ''Algebra''\<rparr>],
         db_schedules = [],
         db_pages =
           [\<lparr>page_id = Some 1, page_name = ''Intro'', page_content = ''text'',
             page_course = Some 1, page_parent = None, page_content_type = Some 5,
             page_object_id = Some 1\<rparr>],
         db_assessments = [], db_activities = []\<rparr>) = []"
  by (simp add: refers_to_def get_for_model_def delete_courses_def Page_cascade_def doomed_def
      pages_of_courses_def stored_pks_def map_filter_def)

text \<open>
  C6, amended. A delete never modifies an assessment or a page: what is stored afterwards
  was stored before, unchanged. A stored assessment is deleted exactly when the deleted
  row is that assessment, the \<^verbatim>\<open>ContentType\<close> row its column \<^verbatim>\<open>content_type\<close> names,
  or the activity its reference resolves to. A stored page is deleted exactly when it or
  one of its ancestors is the deleted page, names the deleted \<^verbatim>\<open>ContentType\<close> row in
  its column \<^verbatim>\<open>content_type\<close>, or belongs to a course that goes with the deleted row
  (the course itself, or a course of the deleted subject, subject group or instructional
  year level); a delete of a row of any other model leaves all pages in place. In every
  other case the record that refers to the deleted row stays stored, its reference
  dangling.
\<close>

theorem polymorphic_reference_no_cascade:
  "set (db_assessments (Model_delete m x d)) \<subseteq> set (db_assessments d) \<and>
   set (db_pages (Model_delete m x d)) \<subseteq> set (db_pages d) \<and>
   (a \<in> set (db_assessments d) \<longrightarrow>
      (a \<in> set (db_assessments (Model_delete m x d)) \<longleftrightarrow>
         \<not> (m = M_Assessment \<and> asm_id a = Some x) \<and>
         \<not> (m = M_ContentType \<and> asm_content_type a = Some x) \<and>
         \<not> (m = M_Activity \<and>
            refers_to (asm_content_type a) (asm_object_id a) M_Activity x (db_content_types d)))) \<and>
   (p \<in> set (db_pages d) \<longrightarrow>
      (p \<in> set (db_pages (Model_delete m x d)) \<longleftrightarrow> \<not> doomed (page_roots m x d) (db_pages d) p)) \<and>
   (m \<notin> {M_SubjectGroup, M_Subject, M_InstructionalYearLevel, M_Course, M_Page, M_ContentType}
      \<longrightarrow> db_pages (Model_delete m x d) = db_pages d)"
proof -
  have "m \<notin> {M_SubjectGroup, M_Subject, M_InstructionalYearLevel, M_Course, M_Page, M_ContentType}
      \<Longrightarrow> db_pages (Model_delete m x d) = db_pages d"
    using page_roots_none [of m x d] by (simp add: Model_delete_pages Page_cascade_none)
  then show ?thesis
    by (auto simp: Model_delete_assessments Model_delete_pages Page_cascade_iff)
qed

theorem polymorphic_reference_no_cascade_witness:
  "(\<lparr>asm_id = Some 1, asm_name = Some ''Quiz'', asm_content_type = Some 5,
     asm_object_id = Some 1\<rparr> \<in>
      set [\<lparr>asm_id = Some 1, asm_name = Some ''Quiz'', asm_content_type = Some 5,
            asm_object_id = Some 1\<rparr>] \<and>
    refers_to (Some 5) (Some 1) M_Course 1
      [\<lparr>ct_id = Some 5, ct_name = ''course'', ct_app_label = ''courses'',
        ct_model = ''course''\<rparr>]) \<and>
   db_assessments
     (Model_delete M_Course 1
        \<lparr>db_content_types =
           [\<lparr>ct_id = Some 5, ct_name = ''course'', ct_app_label = ''courses'',
             ct_model = ''course''\<rparr>],
         db_subject_groups = [], db_subjects = [], db_instructional_year_levels = [],
         db_courses =
           [\<lparr>course_id = Some 1, course_subject = None,
             course_instructional_year_level = None, course_name = ''Algebra''\<rparr>],
         db_schedules = [],
         db_pages =
           [\<lparr>page_id = Some 1, page_name = ''Intro'', page_content = ''text'',
             page_course = Some 2, page_parent = None, page_content_type = Some 5,
             page_object_id = Some 1\<rparr>],
         db_assessments =
           [\<lparr>asm_id = Some 1, asm_name = Some ''Quiz'', asm_content_type = Some 5,
             asm_object_id = Some 1\<rparr>],
         db_activities = []\<rparr>) =
     [\<lparr>asm_id = Some 1, asm_name = Some ''Quiz'', asm_content_type = Some 5,
       asm_object_id = Some 1\<rparr>] \<and>
   \<not> doomed
       (page_roots M_Course 1
          \<lparr>db_content_types =
             [\<lparr>ct_id = Some 5, ct_name = ''course'', ct_app_label = ''courses'',
               ct_model = ''course''\<rparr>],
           db_subject_groups = [], db_subjects = [], db_instructional_year_levels = [],
           db_courses =
             [\<lparr>course_id = Some 1, course_subject = None,
               course_instructional_year_level = None, course_name = ''Algebra''\<rparr>],
           db_schedules = [],
           db_pages =
             [\<lparr>page_id = Some 1, page_name = ''Intro'', page_content = ''text'',
               page_course = Some 2, page_parent = None, page_content_type = Some 5,
               page_object_id = Some 1\<rparr>],
           db_assessments =
             [\<lparr>asm_id = Some 1, asm_name = Some ''Quiz'', asm_content_type = Some 5,
               asm_object_id = Some 1\<rparr>],
           db_activities = []\<rparr>)
       [\<lparr>page_id = Some 1, page_name = ''Intro'', page_content = ''text'',
         page_course = Some 2, page_parent = None, page_content_type = Some 5,
         page_object_id = Some 1\<rparr>]
       \<lparr>page_id = Some 1, page_name = ''Intro'', page_content = ''text'',
        page_course = Some 2, page_parent = None, page_content_type = Some 5,
        page_object_id = Some 1\<rparr> \<and>
   db_pages
     (Model_delete M_Course 1
        \<lparr>db_content_types =
           [\<lparr>ct_id = Some 5, ct_name = ''course'', ct_app_label = ''courses'',
             ct_model = ''course''\<rparr>],
         db_subject_groups = [], db_subjects = [], db_instructional_year_levels = [],
         db_courses =
           [\<lparr>course_id = Some 1, course_subject = None,
             course_instructional_year_level = None, course_name = ''Algebra''\<rparr>],
         db_schedules = [],
         db_pages =
           [\<lparr>page_id = Some 1, page_name = ''Intro'', page_content = ''text'',
             page_course = Some 2, page_parent = None, page_content_type = Some 5,
             page_object_id = Some 1\<rparr>],
         db_assessments =
           [\<lparr>asm_id = Some 1, asm_name = Some ''Quiz'', asm_content_type = Some 5,
             asm_object_id = Some 1\<rparr>],
         db_activities = []\<rparr>) =
     [\<lparr>page_id = Some 1, page_name = ''Intro'', page_content = ''text'',
       page_course = Some 2, page_parent = None, page_content_type = Some 5,
       page_object_id = Some 1\<rparr>] \<and>
   M_Activity \<notin> {M_SubjectGroup, M_Subject, M_InstructionalYearLevel, M_Course, M_Page,
     M_ContentType} \<and>
   db_pages
     (Model_delete M_Activity 1
        \<lparr>db_content_types =
           [\<lparr>ct_id = Some 7, ct_name = ''activity'', ct_app_label = ''courses'',
             ct_model = ''activity''\<rparr>],
         db_subject_groups = [], db_subjects = [], db_instructional_year_levels = [],
         db_courses = [], db_schedules = [],
         db_pages =
           [\<lparr>page_id = Some 1, page_name = ''Intro'', page_content = ''text'',
             page_course = Some 1, page_parent = None, page_content_type = Some 7,
             page_object_id = Some 1\<rparr>],
         db_assessments = [],
         db_activities =
           [\<lparr>act_id = Some 1, act_schedules = [], act_subject = ''Lab'',
             act_track_attendance = True, act_start = Some 10, act_end = Some 11,
             act_created = Some 1, act_last_modified = Some 1\<rparr>]\<rparr>) =
     [\<lparr>page_id = Some 1, page_name = ''Intro'', page_content = ''text'',
       page_course = Some 1, page_parent = None, page_content_type = Some 7,
       page_object_id = Some 1\<rparr>]"
  using polymorphic_reference_no_cascade
    [of M_Course 1
        "\<lparr>db_content_types =
           [\<lparr>ct_id = Some 5, ct_name = ''course'', ct_app_label = ''courses'',
             ct_model = ''course''\<rparr>],
         db_subject_groups = [], db_subjects = [], db_instructional_year_levels = [],
         db_courses =
           [\<lparr>course_id = Some 1, course_subject = None,
             course_instructional_year_level = None, course_name = ''Algebra''\<rparr>],
         db_schedules = [],
         db_pages =
           [\<lparr>page_id = Some 1, page_name = ''Intro'', page_content = ''text'',
             page_course = Some 2, page_parent = None, page_content_type = Some 5,
             page_object_id = Some 1\<rparr>],
         db_assessments =
           [\<lparr>asm_id = Some 1, asm_name = Some ''Quiz'', asm_content_type = Some 5,
             asm_object_id = Some 1\<rparr>],
         db_activities = []\<rparr>"
        "\<lparr>asm_id = Some 1, asm_name = Some ''Quiz'', asm_content_type = Some 5,
          asm_object_id = Some 1\<rparr>"
        "\<lparr>page_id = Some 1, page_name = ''Intro'', page_content = ''text'',
          page_course = Some 2, page_parent = None, page_content_type = Some 5,
          page_object_id = Some 1\<rparr>"]
    polymorphic_reference_no_cascade
    [of M_Activity 1
        "\<lparr>db_content_types =
           [\<lparr>ct_id = Some 7, ct_name = ''activity'', ct_app_label = ''courses'',
             ct_model = ''activity''\<rparr>],
         db_subject_groups = [], db_subjects = [], db_instructional_year_levels = [],
         db_courses = [], db_schedules = [],
         db_pages =
           [\<lparr>page_id = Some 1, page_name = ''Intro'', page_content = ''text'',
             page_course = Some 1, page_parent = None, page_content_type = Some 7,
             page_object_id = Some 1\<rparr>],
         db_assessments = [],
         db_activities =
           [\<lparr>act_id = Some 1, act_schedules = [], act_subject = ''Lab'',
             act_track_attendance = True, act_start = Some 10, act_end = Some 11,
             act_created = Some 1, act_last_modified = Some 1\<rparr>]\<rparr>"]
  by (simp add: refers_to_def get_for_model_def delete_courses_def Page_cascade_def doomed_def
      pages_of_courses_def page_roots_def stored_pks_def map_filter_def unlink_schedules_def)

subsection \<open>The students URL configuration\<close>

lemma re_search_not_at_start: "\<not> re_search ''^$'' path False"
  by (induction path) auto

lemma re_search_anchors: "re_search ''^$'' path True = (path = [] \<or> path = [CHR 0x0A])"
  by (cases path) (auto simp: re_search_not_at_start)

text \<open>
  C8. The students URL configuration has exactly one pattern, the regular expression
  \<^verbatim>\<open>^$\<close> dispatched to the view \<^verbatim>\<open>kapua.students.views.index\<close>: the empty path
  resolves to the index view, and a path resolves (to that view) only when the pattern
  \<^verbatim>\<open>^$\<close> matches it.
\<close>

theorem urlpatterns_single_route:
  "urlpatterns = [(''^$'', ''kapua.students.views.index'')] \<and>
   length urlpatterns = 1 \<and>
   resolve urlpatterns [] = Some ''kapua.students.views.index'' \<and>
   resolve urlpatterns path =
     (if path = [] \<or> path = [CHR 0x0A] then Some ''kapua.students.views.index'' else None)"
  by (simp add: urlpatterns_def patterns_def re_search_anchors)

end
